theory Spec2Isabelle
  imports Main
begin

section \<open>Python strings\<close>

text \<open>
  A Python \<open>str\<close> is modelled as a \<open>string\<close>: each \<open>char\<close> stands for one code point
  below 256.  The operations below are the \<open>str\<close> methods that \<open>tidy_logger.py\<close> and the
  \<open>pathlib\<close> routines it calls rely on.
\<close>

definition py_isspace :: "char \<Rightarrow> bool" where
  \<comment> \<open>the code points below 256 for which \<open>str.isspace\<close> holds\<close>
  "py_isspace c =
     (of_char c \<in> {9, 10, 11, 12, 13, 28, 29, 30, 31, 32, 133, 160 :: nat})"

definition py_lstrip :: "(char \<Rightarrow> bool) \<Rightarrow> string \<Rightarrow> string" where
  "py_lstrip P s = dropWhile P s"

definition py_strip :: "string \<Rightarrow> string" where
  \<comment> \<open>\<open>s.strip()\<close>\<close>
  "py_strip s = rev (dropWhile py_isspace (rev (dropWhile py_isspace s)))"

fun py_split :: "char \<Rightarrow> string \<Rightarrow> string list" where
  \<comment> \<open>\<open>s.split(c)\<close> for a one-character separator\<close>
  "py_split c [] = [[] ]"
| "py_split c (x # xs) =
     (if x = c then [] # py_split c xs
      else (case py_split c xs of
              [] \<Rightarrow> [[x] ]
            | w # ws \<Rightarrow> (x # w) # ws))"

fun py_join :: "char \<Rightarrow> string list \<Rightarrow> string" where
  \<comment> \<open>\<open>c.join(xs)\<close>\<close>
  "py_join c [] = []"
| "py_join c [x] = x"
| "py_join c (x # y # ys) = x @ c # py_join c (y # ys)"

definition py_replace :: "char \<Rightarrow> char \<Rightarrow> string \<Rightarrow> string" where
  \<comment> \<open>\<open>s.replace(a, b)\<close> for one-character \<open>a\<close> and \<open>b\<close>\<close>
  "py_replace a b s = map (\<lambda>x. if x = a then b else x) s"

fun py_find :: "char \<Rightarrow> string \<Rightarrow> nat option" where
  \<comment> \<open>\<open>s.find(c)\<close>; \<open>None\<close> stands for \<open>-1\<close>\<close>
  "py_find c [] = None"
| "py_find c (x # xs) =
     (if x = c then Some 0 else map_option Suc (py_find c xs))"

definition py_find_from :: "char \<Rightarrow> string \<Rightarrow> nat \<Rightarrow> nat option" where
  \<comment> \<open>\<open>s.find(c, start)\<close>\<close>
  "py_find_from c s start = map_option (\<lambda>i. i + start) (py_find c (drop start s))"

definition py_rfind :: "char \<Rightarrow> string \<Rightarrow> nat option" where
  \<comment> \<open>\<open>s.rfind(c)\<close>\<close>
  "py_rfind c s =
     (case py_find c (rev s) of
        None \<Rightarrow> None
      | Some j \<Rightarrow> Some (length s - 1 - j))"

definition py_startswith :: "string \<Rightarrow> string \<Rightarrow> bool" where
  "py_startswith s pre = (take (length pre) s = pre)"

definition py_upper_char :: "char \<Rightarrow> char" where
  \<comment> \<open>case mapping of the ASCII letters; a character outside \<open>a\<close>..\<open>z\<close> never maps to
      an ASCII letter or digit of a reserved device name, so it is left as it is\<close>
  "py_upper_char c =
     (let n = (of_char c :: nat) in if 97 \<le> n \<and> n \<le> 122 then char_of (n - 32) else c)"

definition py_upper :: "string \<Rightarrow> string" where
  "py_upper s = map py_upper_char s"

definition digit_char :: "nat \<Rightarrow> char" where
  "digit_char n = char_of (48 + n mod 10)"

function py_decimal :: "nat \<Rightarrow> string" where
  \<comment> \<open>a number as \<open>%d\<close> prints it: its decimal digits, no padding\<close>
  "py_decimal n = (if n < 10 then [digit_char n] else py_decimal (n div 10) @ [digit_char n])"
  by pat_completeness auto
termination
  by (relation "measure (\<lambda>n. n)") auto

declare py_decimal.simps [simp del]

definition zfill :: "nat \<Rightarrow> string \<Rightarrow> string" where
  \<comment> \<open>padding with zeros on the left up to a width, as \<open>%02d\<close> does for width 2\<close>
  "zfill k s = replicate (k - length s) CHR ''0'' @ s"

section \<open>The clock\<close>

record date =
  year :: nat
  month :: nat
  day :: nat

definition strftime_Ymd :: "date \<Rightarrow> string" where
  \<comment> \<open>\<open>datetime.now().strftime("%Y%m%d")\<close>, the local calendar date being the argument.
      \<open>%Y\<close> is the year in decimal as the C library prints it, which on Linux is not
      padded (year 999 gives \<open>999\<close>); \<open>%m\<close> and \<open>%d\<close> are two digits each.\<close>
  "strftime_Ymd d =
     py_decimal (year d) @ zfill 2 (py_decimal (month d)) @ zfill 2 (py_decimal (day d))"

section \<open>Exceptions\<close>

datatype exc_class = ValueError | TypeError | OSError

datatype exc = Exc exc_class string

fun exc_kind :: "exc \<Rightarrow> exc_class" where
  "exc_kind (Exc k m) = k"

fun exc_message :: "exc \<Rightarrow> string" where
  "exc_message (Exc k m) = m"

section \<open>Paths: the part of pathlib that the resolver calls\<close>

text \<open>
  \<open>Path(x)\<close> builds a \<open>WindowsPath\<close> when \<open>os.name == "nt"\<close> and a \<open>PosixPath\<close> otherwise, so
  every path operation takes the value of \<open>os.name\<close>.  A path holds what pathlib keeps:
  drive, root and the list of parts, whose first entry is drive + root for an anchored path.
\<close>

record path =
  drv :: string
  root :: string
  parts :: "string list"

definition sep :: "string \<Rightarrow> char" where
  "sep os_name = (if os_name = ''nt'' then CHR 0x5C else CHR ''/'')"

definition altsep :: "string \<Rightarrow> char option" where
  "altsep os_name = (if os_name = ''nt'' then Some CHR ''/'' else None)"

definition posix_splitroot :: "string \<Rightarrow> string \<times> string \<times> string" where
  "posix_splitroot part =
     (if part \<noteq> [] \<and> hd part = CHR ''/'' then
        (let stripped_part = py_lstrip (\<lambda>x. x = CHR ''/'') part in
           if length part - length stripped_part = 2
           then ([], [CHR ''/'', CHR ''/''], stripped_part)
           else ([], [CHR ''/''], stripped_part))
      else ([], [], part))"

definition drive_letters :: string where
  "drive_letters = ''abcdefghijklmnopqrstuvwxyzABCDEFGHIJKLMNOPQRSTUVWXYZ''"

definition ext_namespace_prefix :: string where
  "ext_namespace_prefix = [CHR 0x5C, CHR 0x5C, CHR ''?'', CHR 0x5C]"

definition split_extended_path :: "string \<Rightarrow> string \<times> string" where
  "split_extended_path s =
     (if py_startswith s ext_namespace_prefix then
        (let prefix = take 4 s; s1 = drop 4 s in
           if py_startswith s1 (''UNC'' @ [CHR 0x5C])
           then (prefix @ take 3 s1, CHR 0x5C # drop 3 s1)
           else (prefix, s1))
      else ([], s))"

definition nt_splitroot_tail :: "string \<Rightarrow> string \<Rightarrow> string \<times> string \<times> string" where
  \<comment> \<open>the end of \<open>_WindowsFlavour.splitroot\<close>: drive letter, then root\<close>
  "nt_splitroot_tail prefix part =
     (let s = CHR 0x5C;
          first = take 1 part; second = take 1 (drop 1 part); third = take 1 (drop 2 part);
          has_drive = (second = '':'' \<and> first \<noteq> [] \<and> hd first \<in> set drive_letters);
          drv0 = (if has_drive then take 2 part else []);
          part1 = (if has_drive then drop 2 part else part);
          first1 = (if has_drive then third else first)
      in if first1 = [s]
         then (prefix @ drv0, first1, py_lstrip (\<lambda>x. x = s) part1)
         else (prefix @ drv0, [], part1))"

definition nt_splitroot :: "string \<Rightarrow> string \<times> string \<times> string" where
  "nt_splitroot part0 =
     (let s = CHR 0x5C;
          (prefix, part) =
             (if take 1 (drop 1 part0) = [s] \<and> take 1 part0 = [s]
              then split_extended_path part0 else ([], part0));
          first = take 1 part; second = take 1 (drop 1 part); third = take 1 (drop 2 part)
      in if second = [s] \<and> first = [s] \<and> third \<noteq> [s] then
           (case py_find_from s part 2 of
              None \<Rightarrow> nt_splitroot_tail prefix part
            | Some index \<Rightarrow>
                (let index2 = py_find_from s part (index + 1) in
                   if index2 \<noteq> Some (index + 1) then
                     (let i2 = (case index2 of None \<Rightarrow> length part | Some j \<Rightarrow> j) in
                        if prefix \<noteq> []
                        then (prefix @ take (i2 - 1) (drop 1 part), [s], drop (i2 + 1) part)
                        else (take i2 part, [s], drop (i2 + 1) part))
                   else nt_splitroot_tail prefix part))
         else nt_splitroot_tail prefix part)"

definition splitroot :: "string \<Rightarrow> string \<Rightarrow> string \<times> string \<times> string" where
  "splitroot os_name part =
     (if os_name = ''nt'' then nt_splitroot part else posix_splitroot part)"

definition parse_parts :: "string \<Rightarrow> string \<Rightarrow> path" where
  \<comment> \<open>\<open>_Flavour.parse_parts\<close> on a one-element tuple, which is how \<open>Path(file_name)\<close>,
      \<open>Path(part)\<close> and \<open>with_name\<close> call it\<close>
  "parse_parts os_name part0 =
     (if part0 = [] then \<lparr>drv = [], root = [], parts = []\<rparr>
      else
        (let part = (case altsep os_name of
                       None \<Rightarrow> part0
                     | Some a \<Rightarrow> py_replace a (sep os_name) part0);
             (d, r, rel) = splitroot os_name part;
             parsed =
               (if sep os_name \<in> set rel
                then filter (\<lambda>x. x \<noteq> [] \<and> x \<noteq> ''.'') (py_split (sep os_name) rel)
                else (if rel \<noteq> [] \<and> rel \<noteq> ''.'' then [rel] else []))
         in \<lparr>drv = d, root = r,
             parts = (if d \<noteq> [] \<or> r \<noteq> [] then [d @ r] else []) @ parsed\<rparr>))"

definition Path :: "string \<Rightarrow> string \<Rightarrow> path" where
  "Path os_name x = parse_parts os_name x"

definition path_str :: "string \<Rightarrow> path \<Rightarrow> string" where
  \<comment> \<open>\<open>str(p)\<close>: the formatted parts, or \<open>"."\<close> when that is empty\<close>
  "path_str os_name p =
     (let formatted =
            (if drv p \<noteq> [] \<or> root p \<noteq> []
             then drv p @ root p @ py_join (sep os_name) (tl (parts p))
             else py_join (sep os_name) (parts p))
      in if formatted = [] then ''.'' else formatted)"

definition path_name :: "path \<Rightarrow> string" where
  \<comment> \<open>\<open>p.name\<close>\<close>
  "path_name p =
     (if length (parts p) = (if drv p \<noteq> [] \<or> root p \<noteq> [] then 1 else 0) then []
      else last (parts p))"

definition suffix_of_name :: "string \<Rightarrow> string" where
  "suffix_of_name nm =
     (case py_rfind CHR ''.'' nm of
        None \<Rightarrow> []
      | Some i \<Rightarrow> if 0 < i \<and> i < length nm - 1 then drop i nm else [])"

definition stem_of_name :: "string \<Rightarrow> string" where
  "stem_of_name nm =
     (case py_rfind CHR ''.'' nm of
        None \<Rightarrow> nm
      | Some i \<Rightarrow> if 0 < i \<and> i < length nm - 1 then take i nm else nm)"

definition path_suffix :: "path \<Rightarrow> string" where
  \<comment> \<open>\<open>p.suffix\<close>\<close>
  "path_suffix p = suffix_of_name (path_name p)"

definition path_stem :: "path \<Rightarrow> string" where
  \<comment> \<open>\<open>p.stem\<close>\<close>
  "path_stem p = stem_of_name (path_name p)"

definition path_parent :: "path \<Rightarrow> path" where
  \<comment> \<open>\<open>p.parent\<close>\<close>
  "path_parent p =
     (if length (parts p) = 1 \<and> (drv p \<noteq> [] \<or> root p \<noteq> []) then p
      else p\<lparr>parts := butlast (parts p)\<rparr>)"

definition with_name :: "string \<Rightarrow> path \<Rightarrow> string \<Rightarrow> exc + path" where
  \<comment> \<open>\<open>p.with_name(name)\<close>\<close>
  "with_name os_name p nm =
     (if path_name p = [] then Inl (Exc ValueError ''has an empty name'')
      else
        (let q = parse_parts os_name nm in
           if nm = [] \<or> last nm = sep os_name \<or> Some (last nm) = altsep os_name
              \<or> drv q \<noteq> [] \<or> root q \<noteq> [] \<or> length (parts q) \<noteq> 1
           then Inl (Exc ValueError ''Invalid name'')
           else Inr (p\<lparr>parts := butlast (parts p) @ [nm]\<rparr>)))"

definition with_suffix :: "string \<Rightarrow> path \<Rightarrow> string \<Rightarrow> exc + path" where
  \<comment> \<open>\<open>p.with_suffix(suffix)\<close>\<close>
  "with_suffix os_name p sfx =
     (if sep os_name \<in> set sfx \<or> (\<exists>a. altsep os_name = Some a \<and> a \<in> set sfx)
      then Inl (Exc ValueError ''Invalid suffix'')
      else if (sfx \<noteq> [] \<and> \<not> py_startswith sfx ''.'') \<or> sfx = ''.''
      then Inl (Exc ValueError ''Invalid suffix'')
      else
        (let nm = path_name p in
           if nm = [] then Inl (Exc ValueError ''has an empty name'')
           else
             (let old_suffix = path_suffix p;
                  nm1 = (if old_suffix = [] then nm @ sfx
                         else take (length nm - length old_suffix) nm @ sfx)
              in Inr (p\<lparr>parts := butlast (parts p) @ [nm1]\<rparr>))))"

section \<open>The path resolver: \<open>TidyLogger._create_file_path\<close>\<close>

definition DEFAULT_FILE_NAME :: string where
  "DEFAULT_FILE_NAME = ''log''"

definition DEFAULT_FILE_EXTENSION :: string where
  "DEFAULT_FILE_EXTENSION = ''.log''"

datatype file_name_arg =
    FNone                \<comment> \<open>\<open>None\<close>\<close>
  | FStr string          \<comment> \<open>a \<open>str\<close>\<close>
  | FPath string         \<comment> \<open>a \<open>Path\<close> object, given by a string it can be built from\<close>
  | FOther               \<comment> \<open>a value of any other type, such as an \<open>int\<close>\<close>

definition invalid_chars :: "char list" where
  \<comment> \<open>\<open>set(r'<>:"/\\|?*')\<close>\<close>
  "invalid_chars =
     [CHR ''<'', CHR ''>'', CHR '':'', CHR 0x22, CHR ''/'', CHR 0x5C, CHR ''|'', CHR ''?'',
      CHR ''*'']"

definition reserved :: "string list" where
  "reserved =
     [''CON'', ''PRN'', ''AUX'', ''NUL''] @
     map (\<lambda>i. ''COM'' @ [digit_char i]) [1..<10] @
     map (\<lambda>i. ''LPT'' @ [digit_char i]) [1..<10]"

fun isinstance_str_or_Path :: "file_name_arg \<Rightarrow> bool" where
  \<comment> \<open>\<open>isinstance(file_name, (str, Path))\<close>\<close>
  "isinstance_str_or_Path (FStr x) = True"
| "isinstance_str_or_Path (FPath x) = True"
| "isinstance_str_or_Path v = False"

fun path_argument :: "file_name_arg \<Rightarrow> string" where
  \<comment> \<open>the string that \<open>Path(file_name)\<close> parses when \<open>file_name\<close> is a string or a path
      object; building a path from a path object gives an equal path\<close>
  "path_argument (FStr x) = x"
| "path_argument (FPath x) = x"
| "path_argument v = []"

definition create_file_path :: "string \<Rightarrow> date \<Rightarrow> file_name_arg \<Rightarrow> bool \<Rightarrow> exc + path" where
  "create_file_path os_name now file_name add_date_suffix_to_file_name =
     (let date_suffix = strftime_Ymd now in
        if file_name = FNone \<and> add_date_suffix_to_file_name then
          Inr (Path os_name (DEFAULT_FILE_NAME @ ''_'' @ date_suffix @ DEFAULT_FILE_EXTENSION))
        else if file_name = FNone then
          Inr (Path os_name (DEFAULT_FILE_NAME @ DEFAULT_FILE_EXTENSION))
        else if isinstance_str_or_Path file_name then
          (let p = Path os_name (path_argument file_name);
               s = path_str os_name p
           in if py_strip s = [] then
                Inl (Exc ValueError ''`file_name` cannot be empty.'')
              else if CHR 0x00 \<in> set s then
                Inl (Exc ValueError ''`file_name` contains null byte.'')
              else if os_name = ''nt'' \<and> list_ex (\<lambda>ch. ch \<in> set s) invalid_chars then
                Inl (Exc ValueError
                       ''`file_name` contains invalid characters for Windows paths.'')
              else if os_name = ''nt''
                      \<and> list_ex (\<lambda>part. py_upper (path_stem (Path os_name part)) \<in> set reserved)
                           (parts p) then
                Inl (Exc ValueError
                       ''`file_name` path contains reserved Windows device name component.'')
              else if add_date_suffix_to_file_name then
                (let suffix = (if path_suffix p \<noteq> [] then path_suffix p
                               else DEFAULT_FILE_EXTENSION);
                     new_name = path_stem p @ ''_'' @ date_suffix @ suffix
                 in with_name os_name p new_name)
              else if path_suffix p = [] then with_suffix os_name p DEFAULT_FILE_EXTENSION
              else Inr p)
        else Inl (Exc ValueError '''file_name' should be of type 'str', 'Path', or 'None'.''))"

section \<open>Severity levels\<close>

text \<open>
  \<open>console_level\<close> and \<open>file_level\<close> are declared \<open>int | str\<close>.  \<open>min\<close> compares two \<open>int\<close>s
  by value and two \<open>str\<close>s lexicographically by code point, and raises \<open>TypeError\<close> on a mixed
  pair; \<open>setLevel\<close> turns its argument into a number with \<open>logging._checkLevel\<close>.
\<close>

datatype level_arg = LInt int | LStr string

fun str_lt :: "string \<Rightarrow> string \<Rightarrow> bool" where
  \<comment> \<open>\<open>a < b\<close> on \<open>str\<close>\<close>
  "str_lt [] [] = False"
| "str_lt [] (y # ys) = True"
| "str_lt (x # xs) [] = False"
| "str_lt (x # xs) (y # ys) =
     ((of_char x :: nat) < of_char y \<or> (x = y \<and> str_lt xs ys))"

fun py_min :: "level_arg \<Rightarrow> level_arg \<Rightarrow> exc + level_arg" where
  \<comment> \<open>\<open>min(a, b)\<close>: \<open>b\<close> when \<open>b < a\<close>, else \<open>a\<close>\<close>
  "py_min (LInt x) (LInt y) = Inr (if y < x then LInt y else LInt x)"
| "py_min (LStr x) (LStr y) = Inr (if str_lt y x then LStr y else LStr x)"
| "py_min a b = Inl (Exc TypeError ''< not supported between instances of str and int'')"

definition nameToLevel :: "(string \<times> int) list" where
  "nameToLevel =
     [(''CRITICAL'', 50), (''FATAL'', 50), (''ERROR'', 40), (''WARN'', 30), (''WARNING'', 30),
      (''INFO'', 20), (''DEBUG'', 10), (''NOTSET'', 0)]"

fun checkLevel :: "level_arg \<Rightarrow> exc + int" where
  "checkLevel (LInt n) = Inr n"
| "checkLevel (LStr s) =
     (case map_of nameToLevel s of
        None \<Rightarrow> Inl (Exc ValueError ''Unknown level'')
      | Some n \<Rightarrow> Inr n)"

section \<open>Handlers, loggers and the world\<close>

datatype formatter = IndentedMessageFormatter | ColoredIndentedMessageFormatter

datatype sink =
    FileSink path string                \<comment> \<open>\<open>logging.FileHandler\<close>: file path and mode\<close>
  | RotatingFileSink path string int int
      \<comment> \<open>\<open>RotatingFileHandler\<close>: file path, mode, \<open>maxBytes\<close>, \<open>backupCount\<close>\<close>
  | StreamSink                          \<comment> \<open>\<open>logging.StreamHandler()\<close>\<close>
  | ForeignSink nat                     \<comment> \<open>a handler that somebody else attached\<close>

record handler =
  sink :: sink
  hformatter :: "formatter option"
  hlevel :: int

record logger =
  level :: int
  handlers :: "handler list"

datatype effect =
    MkdirParents path       \<comment> \<open>\<open>path.mkdir(parents=True, exist_ok=True)\<close>\<close>
  | OpenFile path string    \<comment> \<open>opening the log file in a mode\<close>
  | Flush handler           \<comment> \<open>\<open>handler.flush()\<close>\<close>
  | Close handler           \<comment> \<open>\<open>handler.close()\<close>\<close>

text \<open>
  The world is what the facade reads and changes outside itself: the platform name, the
  clock, the process-wide registry of named loggers (a name that was never requested maps
  to the logger that \<open>getLogger\<close> would create), the sequence of calls made to the file
  system and to handlers so far, and the environment's answer to whether such a call,
  after a given history, raises.
\<close>

record world =
  platform :: string
  clock :: date
  loggers :: "string \<Rightarrow> logger"
  trace :: "effect list"
  failing :: "effect list \<Rightarrow> effect \<Rightarrow> bool"

definition perform :: "effect \<Rightarrow> world \<Rightarrow> (exc + unit) \<times> world" where
  "perform e w =
     (if failing w (trace w) e
      then (Inl (Exc OSError ''call failed''), w\<lparr>trace := trace w @ [e]\<rparr>)
      else (Inr (), w\<lparr>trace := trace w @ [e]\<rparr>))"

definition getLogger :: "string \<Rightarrow> string" where
  \<comment> \<open>the registry key of \<open>logging.getLogger(name)\<close>: an empty name and \<open>"root"\<close> both
      give the root logger\<close>
  "getLogger nm = (if nm = [] \<or> nm = ''root'' then ''root'' else nm)"

definition setLevel :: "string \<Rightarrow> int \<Rightarrow> world \<Rightarrow> world" where
  "setLevel k l w = w\<lparr>loggers := (loggers w)(k := (loggers w k)\<lparr>level := l\<rparr>)\<rparr>"

definition addHandler :: "string \<Rightarrow> handler \<Rightarrow> world \<Rightarrow> world" where
  "addHandler k h w =
     (if h \<in> set (handlers (loggers w k)) then w
      else w\<lparr>loggers := (loggers w)(k := (loggers w k)\<lparr>handlers := handlers (loggers w k) @ [h]\<rparr>)\<rparr>)"

definition removeHandler :: "string \<Rightarrow> handler \<Rightarrow> world \<Rightarrow> world" where
  "removeHandler k h w =
     (if h \<in> set (handlers (loggers w k))
      then w\<lparr>loggers := (loggers w)(k := (loggers w k)\<lparr>handlers := remove1 h (handlers (loggers w k))\<rparr>)\<rparr>
      else w)"

section \<open>The facade: \<open>TidyLogger\<close>\<close>

record init_args =
  file_name :: file_name_arg
  file_mode :: string
  console_level :: level_arg
  file_level :: level_arg
  name :: "string option"
  add_date_suffix_to_file_name :: bool
  use_file_rotation :: bool
  max_bytes :: int
  backup_count :: int

definition default_args :: init_args where
  \<comment> \<open>the defaults of \<open>__init__\<close>'s signature\<close>
  "default_args =
     \<lparr>file_name = FNone, file_mode = ''a'', console_level = LInt 20, file_level = LInt 10,
      name = None, add_date_suffix_to_file_name = True, use_file_rotation = False,
      max_bytes = 100 * 1024 * 1024, backup_count = 10\<rparr>"

definition new_file_handler :: "init_args \<Rightarrow> path \<Rightarrow> sink \<times> effect" where
  \<comment> \<open>the file handler that lines 56 to 59 construct, and the file it opens; a
      \<open>RotatingFileHandler\<close> with a positive \<open>maxBytes\<close> always opens in mode \<open>a\<close>\<close>
  "new_file_handler a file_path =
     (if use_file_rotation a then
        (let m = (if max_bytes a > 0 then ''a'' else file_mode a) in
           (RotatingFileSink file_path m (max_bytes a) (backup_count a), OpenFile file_path m))
      else (FileSink file_path (file_mode a), OpenFile file_path (file_mode a)))"

definition attach_sinks :: "init_args \<Rightarrow> string \<Rightarrow> world \<Rightarrow> (exc + string) \<times> world" where
  \<comment> \<open>the body of \<open>if not self.logger.handlers:\<close>, lines 51 to 69\<close>
  "attach_sinks a k w =
     (case create_file_path (platform w) (clock w) (file_name a)
             (add_date_suffix_to_file_name a) of
        Inl e \<Rightarrow> (Inl e, w)
      | Inr file_path \<Rightarrow>
          (case perform (MkdirParents (path_parent file_path)) w of
             (Inl e, w1) \<Rightarrow> (Inl e, w1)
           | (Inr u, w1) \<Rightarrow>
               (case perform (snd (new_file_handler a file_path)) w1 of
                  (Inl e, w2) \<Rightarrow> (Inl e, w2)
                | (Inr u, w2) \<Rightarrow>
                    (case checkLevel (file_level a) of
                       Inl e \<Rightarrow> (Inl e, w2)
                     | Inr fl \<Rightarrow>
                         (let file_handler =
                                \<lparr>sink = fst (new_file_handler a file_path),
                                 hformatter = Some IndentedMessageFormatter, hlevel = fl\<rparr>;
                              w3 = addHandler k file_handler w2
                          in case checkLevel (console_level a) of
                               Inl e \<Rightarrow> (Inl e, w3)
                             | Inr cl \<Rightarrow>
                                 (let console_handler =
                                        \<lparr>sink = StreamSink,
                                         hformatter = Some ColoredIndentedMessageFormatter,
                                         hlevel = cl\<rparr>
                                  in (Inr k, addHandler k console_handler w3)))))))"

definition TidyLogger_init :: "init_args \<Rightarrow> world \<Rightarrow> (exc + string) \<times> world" where
  \<comment> \<open>\<open>TidyLogger.__init__\<close>; the facade it builds is identified by the registry key of
      \<open>self.logger\<close>.  A raised exception leaves the world as changed up to the raise.\<close>
  "TidyLogger_init a w =
     (let k = getLogger (case name a of None \<Rightarrow> ''TidyLogger'' | Some n \<Rightarrow> n) in
        case py_min (console_level a) (file_level a) of
          Inl e \<Rightarrow> (Inl e, w)
        | Inr m \<Rightarrow>
            (case checkLevel m of
               Inl e \<Rightarrow> (Inl e, w)
             | Inr l \<Rightarrow>
                 (let w1 = setLevel k l w in
                    if handlers (loggers w1 k) = [] then attach_sinks a k w1
                    else (Inr k, w1))))"

definition try_except_pass :: "(exc + unit) \<times> world \<Rightarrow> world" where
  \<comment> \<open>\<open>try: ... except Exception: pass\<close>: whatever the call did stays, its exception is
      dropped\<close>
  "try_except_pass r = (case r of (Inl e, w) \<Rightarrow> w | (Inr u, w) \<Rightarrow> w)"

fun close_loop :: "string \<Rightarrow> handler list \<Rightarrow> world \<Rightarrow> world" where
  \<comment> \<open>the \<open>for\<close> loop of \<open>close\<close> over the copy of the handler list\<close>
  "close_loop k [] w = w"
| "close_loop k (h # hs) w =
     (let w1 = try_except_pass (perform (Flush h) w);
          w2 = try_except_pass (perform (Close h) w1);
          w3 = removeHandler k h w2
      in close_loop k hs w3)"

definition close :: "string \<Rightarrow> world \<Rightarrow> (exc + unit) \<times> world" where
  \<comment> \<open>\<open>TidyLogger.close\<close>\<close>
  "close k w = (Inr (), close_loop k (handlers (loggers w k)) w)"

section \<open>Dispatch of a record by the underlying logger\<close>

text \<open>
  \<open>Logger.log\<close> drops a record below the logger's effective level; \<open>callHandlers\<close> then
  hands it to each handler whose own level it reaches.  The effective level is the
  logger's level unless that is \<open>NOTSET\<close> (0), in which case it is inherited from the
  nearest ancestor with a level, given here as \<open>inherited\<close>.  Only the handlers of the
  logger itself are followed.
\<close>

definition getEffectiveLevel :: "logger \<Rightarrow> int \<Rightarrow> int" where
  "getEffectiveLevel lg inherited = (if level lg \<noteq> 0 then level lg else inherited)"

definition isEnabledFor :: "logger \<Rightarrow> int \<Rightarrow> int \<Rightarrow> bool" where
  "isEnabledFor lg inherited lvl = (lvl \<ge> getEffectiveLevel lg inherited)"

definition callHandlers :: "logger \<Rightarrow> int \<Rightarrow> handler list" where
  "callHandlers lg lvl = filter (\<lambda>h. lvl \<ge> hlevel h) (handlers lg)"

definition log_record :: "string \<Rightarrow> int \<Rightarrow> world \<Rightarrow> int \<Rightarrow> handler list" where
  \<comment> \<open>the handlers that receive a record of severity \<open>lvl\<close> logged through facade \<open>k\<close>\<close>
  "log_record k lvl w inherited =
     (if isEnabledFor (loggers w k) inherited lvl then callHandlers (loggers w k) lvl else [])"



definition warning :: "string \<Rightarrow> world \<Rightarrow> int \<Rightarrow> handler list" where
  "warning k w inherited = log_record k 30 w inherited"

definition error :: "string \<Rightarrow> world \<Rightarrow> int \<Rightarrow> handler list" where
  "error k w inherited = log_record k 40 w inherited"

definition critical :: "string \<Rightarrow> world \<Rightarrow> int \<Rightarrow> handler list" where
  "critical k w inherited = log_record k 50 w inherited"

section \<open>Auxiliary notions for the proofs\<close>

definition nat_of_digits :: "string \<Rightarrow> nat" where
  \<comment> \<open>the number that a string of decimal digits denotes\<close>
  "nat_of_digits s = foldl (\<lambda>a c. 10 * a + (of_char c - 48)) 0 s"

definition anchored :: "path \<Rightarrow> bool" where
  \<comment> \<open>the path has a drive or a root\<close>
  "anchored p = (drv p \<noteq> [] \<or> root p \<noteq> [])"

definition plain_name :: "string \<Rightarrow> string \<Rightarrow> bool" where
  \<comment> \<open>a string that parses to a single relative component on the given platform\<close>
  "plain_name os nn = (nn \<noteq> [] \<and> nn \<noteq> ''.'' \<and> CHR ''/'' \<notin> set nn
      \<and> (os = ''nt'' \<longrightarrow> CHR 0x5C \<notin> set nn \<and> CHR '':'' \<notin> set nn))"

definition logger_key :: "init_args \<Rightarrow> string" where
  \<comment> \<open>the registry key of \<open>self.logger\<close> for given constructor arguments\<close>
  "logger_key a = getLogger (case name a of None \<Rightarrow> ''TidyLogger'' | Some n \<Rightarrow> n)"

definition fresh_world :: world where
  \<comment> \<open>a process that has configured no logger yet, on \<open>posix\<close>, on 2 January 2024, in an
      environment where no call fails\<close>
  "fresh_world =
     \<lparr>platform = ''posix'', clock = \<lparr>year = 2024, month = 1, day = 2\<rparr>,
      loggers = (\<lambda>k. \<lparr>level = (if k = ''root'' then 30 else 0), handlers = []\<rparr>),
      trace = [], failing = (\<lambda>t e. False)\<rparr>"

definition failing_world :: world where
  \<comment> \<open>as \<open>fresh_world\<close>, but every \<open>flush\<close> and every \<open>close\<close> of a handler raises\<close>
  "failing_world =
     fresh_world\<lparr>failing := (\<lambda>t e. case e of Flush h \<Rightarrow> True | Close h \<Rightarrow> True | _ \<Rightarrow> False)\<rparr>"
section \<open>Facts about the string operations\<close>

lemma py_find_append: "c \<notin> set a \<Longrightarrow> py_find c (a @ c # b) = Some (length a)"
  by (induction a) auto

lemma py_find_None: "py_find c s = None \<longleftrightarrow> c \<notin> set s"
  by (induction s) auto

lemma py_find_Some: "py_find c s = Some i \<Longrightarrow> \<exists>a b. s = a @ c # b \<and> c \<notin> set a \<and> i = length a"
proof (induction s arbitrary: i)
  case Nil
  then show ?case by simp
next
  case (Cons x xs)
  show ?case
  proof (cases "x = c")
    case True
    with Cons.prems have "i = 0" by simp
    with True show ?thesis by (intro exI[of _ "[]"] exI[of _ xs]) simp
  next
    case False
    with Cons.prems obtain j where j: "py_find c xs = Some j" "i = Suc j" by auto
    from Cons.IH[OF j(1)] obtain a b where "xs = a @ c # b" "c \<notin> set a" "j = length a" by blast
    with False j show ?thesis by (intro exI[of _ "x # a"] exI[of _ b]) simp
  qed
qed

lemma py_rfind_append: "c \<notin> set b \<Longrightarrow> py_rfind c (a @ c # b) = Some (length a)"
proof -
  assume h: "c \<notin> set b"
  have "rev (a @ c # b) = rev b @ c # rev a" by simp
  moreover have "c \<notin> set (rev b)" using h by simp
  ultimately have "py_find c (rev (a @ c # b)) = Some (length (rev b))"
    using py_find_append by metis
  then show ?thesis by (simp add: py_rfind_def)
qed

lemma py_rfind_None: "py_rfind c s = None \<longleftrightarrow> c \<notin> set s"
  using py_find_None[of c "rev s"] by (auto simp: py_rfind_def split: option.splits)

lemma py_rfind_Some:
  assumes "py_rfind c s = Some i"
  shows "\<exists>a b. s = a @ c # b \<and> c \<notin> set b \<and> i = length a"
proof -
  from assms obtain j where j: "py_find c (rev s) = Some j" "i = length s - 1 - j"
    by (auto simp: py_rfind_def split: option.splits)
  from py_find_Some[OF j(1)] obtain a b where ab: "rev s = a @ c # b" "c \<notin> set a" "j = length a" by blast
  then have "s = rev b @ c # rev a" by (metis rev_append rev.simps(2) rev_rev_ident append_assoc append_Cons append_Nil)
  moreover from this ab j have "i = length (rev b)" by simp
  ultimately show ?thesis using ab(2) by (intro exI[of _ "rev b"] exI[of _ "rev a"]) simp
qed

lemma stem_suffix_append:
  assumes "st \<noteq> []" "ext \<noteq> []" "CHR ''.'' \<notin> set ext"
  shows "stem_of_name (st @ CHR ''.'' # ext) = st" "suffix_of_name (st @ CHR ''.'' # ext) = CHR ''.'' # ext"
  using assms py_rfind_append[of "CHR ''.''" ext st]
  by (simp_all add: stem_of_name_def suffix_of_name_def)

lemma suffix_structure:
  assumes "suffix_of_name nm \<noteq> []"
  shows "\<exists>ext. suffix_of_name nm = CHR ''.'' # ext \<and> ext \<noteq> [] \<and> CHR ''.'' \<notin> set ext
           \<and> nm = stem_of_name nm @ suffix_of_name nm \<and> stem_of_name nm \<noteq> []"
proof -
  from assms obtain i where i: "py_rfind CHR ''.'' nm = Some i" "0 < i" "i < length nm - 1"
    by (auto simp: suffix_of_name_def split: option.splits if_splits)
  from py_rfind_Some[OF i(1)] obtain a b where ab: "nm = a @ CHR ''.'' # b" "CHR ''.'' \<notin> set b" "i = length a" by blast
  with i have "a \<noteq> []" "b \<noteq> []" by auto
  moreover have "suffix_of_name nm = CHR ''.'' # b" "stem_of_name nm = a"
    using i ab by (simp_all add: suffix_of_name_def stem_of_name_def)
  ultimately show ?thesis using ab by simp
qed

lemma set_stem_subset: "set (stem_of_name nm) \<subseteq> set nm"
  by (auto simp: stem_of_name_def split: option.splits dest: in_set_takeD)

lemma set_suffix_subset: "set (suffix_of_name nm) \<subseteq> set nm"
  by (auto simp: suffix_of_name_def split: option.splits dest: in_set_dropD)

lemma digit_char_range: "of_char (digit_char n) \<in> {48..57::nat}"
  by (simp add: digit_char_def)

lemma digit_char_value: "(of_char (digit_char n) :: nat) - 48 = n mod 10"
  by (simp add: digit_char_def)

lemma py_decimal_digits: "c \<in> set (py_decimal n) \<Longrightarrow> (of_char c :: nat) \<in> {48..57}"
proof (induction n rule: py_decimal.induct)
  case (1 n)
  show ?case
  proof (cases "n < 10")
    case True
    with "1.prems" show ?thesis
      by (simp add: py_decimal.simps[of n] digit_char_def)
  next
    case False
    with "1.prems" "1.IH" show ?thesis
      by (auto simp: py_decimal.simps[of n] digit_char_def)
  qed
qed

lemma nat_of_digits_snoc:
  "nat_of_digits (s @ [c]) = 10 * nat_of_digits s + (of_char c - 48)"
  by (simp add: nat_of_digits_def)

lemma nat_of_digits_decimal: "nat_of_digits (py_decimal n) = n"
proof (induction n rule: py_decimal.induct)
  case (1 n)
  show ?case
  proof (cases "n < 10")
    case True
    then show ?thesis
      by (simp add: py_decimal.simps[of n] nat_of_digits_def digit_char_value)
  next
    case False
    then have "nat_of_digits (py_decimal (n div 10)) = n div 10" using "1.IH" by simp
    with False show ?thesis
      by (simp add: py_decimal.simps[of n] nat_of_digits_snoc digit_char_value)
  qed
qed

lemma py_decimal_nonempty: "py_decimal n \<noteq> []"
  by (simp add: py_decimal.simps[of n])

lemma length_decimal_1: "n < 10 \<Longrightarrow> length (py_decimal n) = 1"
  by (simp add: py_decimal.simps[of n])

lemma length_decimal_2: "10 \<le> n \<Longrightarrow> n < 100 \<Longrightarrow> length (py_decimal n) = 2"
  using length_decimal_1[of "n div 10"] by (simp add: py_decimal.simps[of n])

lemma length_decimal_3: "100 \<le> n \<Longrightarrow> n < 1000 \<Longrightarrow> length (py_decimal n) = 3"
  using length_decimal_2[of "n div 10"] by (simp add: py_decimal.simps[of n])

lemma length_decimal_4: "1000 \<le> n \<Longrightarrow> n \<le> 9999 \<Longrightarrow> length (py_decimal n) = 4"
  using length_decimal_3[of "n div 10"] by (simp add: py_decimal.simps[of n])

lemma nat_of_digits_zero: "nat_of_digits (CHR ''0'' # s) = nat_of_digits s"
  by (simp add: nat_of_digits_def)

lemma nat_of_digits_zeros: "nat_of_digits (replicate j CHR ''0'' @ s) = nat_of_digits s"
  by (induction j) (simp_all add: nat_of_digits_zero)

lemma zfill2:
  assumes "m \<le> 99"
  shows "length (zfill 2 (py_decimal m)) = 2" "nat_of_digits (zfill 2 (py_decimal m)) = m"
proof -
  have "length (py_decimal m) = 1 \<or> length (py_decimal m) = 2"
    using assms length_decimal_1[of m] length_decimal_2[of m] by (cases "m < 10") auto
  then show "length (zfill 2 (py_decimal m)) = 2" by (auto simp: zfill_def)
  show "nat_of_digits (zfill 2 (py_decimal m)) = m"
    by (simp add: zfill_def nat_of_digits_zeros nat_of_digits_decimal)
qed

lemma zfill_digits: "c \<in> set (zfill k (py_decimal n)) \<Longrightarrow> (of_char c :: nat) \<in> {48..57}"
  using py_decimal_digits by (auto simp: zfill_def)

lemma strftime_digits: "c \<in> set (strftime_Ymd d) \<Longrightarrow> (of_char c :: nat) \<in> {48..57}"
  using py_decimal_digits zfill_digits by (auto simp: strftime_Ymd_def)

lemma strftime_nonempty: "strftime_Ymd d \<noteq> []"
  by (simp add: strftime_Ymd_def py_decimal_nonempty)

lemma strftime_parts:
  assumes "month d \<le> 12 \<and> day d \<le> 31"
  shows "\<exists>Y M D. strftime_Ymd d = Y @ M @ D
           \<and> nat_of_digits Y = year d
           \<and> length M = 2 \<and> nat_of_digits M = month d
           \<and> length D = 2 \<and> nat_of_digits D = day d
           \<and> (1000 \<le> year d \<and> year d \<le> 9999 \<longrightarrow> length Y = 4)"
proof -
  have m: "length (zfill 2 (py_decimal (month d))) = 2"
    "nat_of_digits (zfill 2 (py_decimal (month d))) = month d"
    using zfill2[of "month d"] assms by simp_all
  have dd: "length (zfill 2 (py_decimal (day d))) = 2"
    "nat_of_digits (zfill 2 (py_decimal (day d))) = day d"
    using zfill2[of "day d"] assms by simp_all
  have y: "1000 \<le> year d \<and> year d \<le> 9999 \<longrightarrow> length (py_decimal (year d)) = 4"
    by (simp add: length_decimal_4)
  have e: "strftime_Ymd d =
      py_decimal (year d) @ zfill 2 (py_decimal (month d)) @ zfill 2 (py_decimal (day d))"
    by (simp add: strftime_Ymd_def)
  show ?thesis
    using e m dd y nat_of_digits_decimal[of "year d"] by blast
qed

lemma strftime_decode:
  assumes "1000 \<le> year d" "year d \<le> 9999" "month d \<le> 12" "day d \<le> 31"
  shows "length (strftime_Ymd d) = 8"
    and "nat_of_digits (take 4 (strftime_Ymd d)) = year d"
    and "nat_of_digits (take 2 (drop 4 (strftime_Ymd d))) = month d"
    and "nat_of_digits (drop 6 (strftime_Ymd d)) = day d"
proof -
  have y: "length (py_decimal (year d)) = 4" using assms by (simp add: length_decimal_4)
  have m: "length (zfill 2 (py_decimal (month d))) = 2"
    "nat_of_digits (zfill 2 (py_decimal (month d))) = month d"
    using zfill2[of "month d"] assms by simp_all
  have dd: "length (zfill 2 (py_decimal (day d))) = 2"
    "nat_of_digits (zfill 2 (py_decimal (day d))) = day d"
    using zfill2[of "day d"] assms by simp_all
  show "length (strftime_Ymd d) = 8" by (simp add: strftime_Ymd_def y m dd)
  show "nat_of_digits (take 4 (strftime_Ymd d)) = year d"
    by (simp add: strftime_Ymd_def y nat_of_digits_decimal)
  show "nat_of_digits (take 2 (drop 4 (strftime_Ymd d))) = month d"
    by (simp add: strftime_Ymd_def y m)
  show "nat_of_digits (drop 6 (strftime_Ymd d)) = day d"
    by (simp add: strftime_Ymd_def y m dd)
qed

section \<open>Facts about path parsing\<close>

lemma py_split_no_sep: "w \<in> set (py_split c s) \<Longrightarrow> c \<notin> set w"
proof (induction s arbitrary: w)
  case Nil
  then show ?case by simp
next
  case (Cons x xs)
  then show ?case by (auto split: if_splits list.splits)
qed

lemma parse_parts_shape:
  "\<exists>d r parsed. parse_parts os x =
      \<lparr>drv = d, root = r, parts = (if d \<noteq> [] \<or> r \<noteq> [] then [d @ r] else []) @ parsed\<rparr>
     \<and> (\<forall>w \<in> set parsed. sep os \<notin> set w \<and> w \<noteq> [])"
proof (cases "x = []")
  case True
  then show ?thesis by (simp add: parse_parts_def)
next
  case False
  define part where "part = (case altsep os of None \<Rightarrow> x | Some a \<Rightarrow> py_replace a (sep os) x)"
  obtain d r rel where sr: "splitroot os part = (d, r, rel)" by (cases "splitroot os part") auto
  define parsed where "parsed = (if sep os \<in> set rel
                then filter (\<lambda>x. x \<noteq> [] \<and> x \<noteq> ''.'') (py_split (sep os) rel)
                else (if rel \<noteq> [] \<and> rel \<noteq> ''.'' then [rel] else []))"
  have "parse_parts os x = \<lparr>drv = d, root = r, parts = (if d \<noteq> [] \<or> r \<noteq> [] then [d @ r] else []) @ parsed\<rparr>"
    using False sr by (simp add: parse_parts_def part_def[symmetric] parsed_def Let_def)
  moreover have "\<forall>w \<in> set parsed. sep os \<notin> set w \<and> w \<noteq> []"
    by (auto simp: parsed_def dest: py_split_no_sep)
  ultimately show ?thesis by blast
qed

lemma parse_parts_name_cases:
  "path_name (parse_parts os x) = [] \<or>
   (path_name (parse_parts os x) = last (parts (parse_parts os x))
    \<and> parts (parse_parts os x) \<noteq> []
    \<and> \<not> (length (parts (parse_parts os x)) = 1 \<and> anchored (parse_parts os x))
    \<and> sep os \<notin> set (path_name (parse_parts os x)))"
proof -
  obtain d r parsed where p: "parse_parts os x =
      \<lparr>drv = d, root = r, parts = (if d \<noteq> [] \<or> r \<noteq> [] then [d @ r] else []) @ parsed\<rparr>"
     and w: "\<forall>w \<in> set parsed. sep os \<notin> set w \<and> w \<noteq> []"
    using parse_parts_shape by blast
  show ?thesis
  proof (cases "parsed = []")
    case True
    then show ?thesis using p by (simp add: path_name_def)
  next
    case False
    then have "last parsed \<in> set parsed" by simp
    with w have "sep os \<notin> set (last parsed)" by blast
    then show ?thesis using p False by (auto simp: path_name_def anchored_def)
  qed
qed

lemma parse_plain_posix:
  assumes "os \<noteq> ''nt''" "x \<noteq> []" "x \<noteq> ''.''" "CHR ''/'' \<notin> set x"
  shows "parse_parts os x = \<lparr>drv = [], root = [], parts = [x]\<rparr>"
proof -
  have "hd x \<noteq> CHR ''/''" using assms by (cases x) auto
  then have "splitroot os x = ([], [], x)" using assms by (simp add: splitroot_def posix_splitroot_def)
  then show ?thesis using assms by (simp add: parse_parts_def altsep_def sep_def)
qed

lemma take1_eq: "take 1 xs = [c] \<Longrightarrow> c \<in> set xs"
  by (cases xs) auto

lemma nt_splitroot_plain:
  assumes "CHR 0x5C \<notin> set x" "CHR '':'' \<notin> set x"
  shows "nt_splitroot x = ([], [], x)"
proof -
  have a: "take 1 x \<noteq> [CHR 0x5C]" using assms(1) take1_eq by metis
  have b: "take 1 (drop 1 x) \<noteq> '':''"
  proof
    assume "take 1 (drop 1 x) = '':''"
    then have "CHR '':'' \<in> set (drop 1 x)" using take1_eq by metis
    then show False using assms(2) by (meson in_set_dropD)
  qed
  have t: "nt_splitroot_tail [] x = ([], [], x)"
    using a b by (simp add: nt_splitroot_tail_def Let_def)
  show ?thesis using a t by (simp add: nt_splitroot_def Let_def)
qed

lemma parse_plain_nt:
  assumes "x \<noteq> []" "x \<noteq> ''.''" "CHR ''/'' \<notin> set x" "CHR 0x5C \<notin> set x" "CHR '':'' \<notin> set x"
  shows "parse_parts ''nt'' x = \<lparr>drv = [], root = [], parts = [x]\<rparr>"
proof -
  have r: "py_replace CHR ''/'' CHR 0x5C x = x"
    unfolding py_replace_def using assms(3) by (induction x) auto
  have "splitroot ''nt'' x = ([], [], x)" using assms nt_splitroot_plain by (simp add: splitroot_def)
  then show ?thesis using assms r by (simp add: parse_parts_def altsep_def sep_def)
qed

lemma set_last_join: "xs \<noteq> [] \<Longrightarrow> set (last xs) \<subseteq> set (py_join c xs)"
  by (induction c xs rule: py_join.induct) auto

lemma set_name_subset_str:
  assumes "path_name (parse_parts os x) \<noteq> []"
  shows "set (path_name (parse_parts os x)) \<subseteq> set (path_str os (parse_parts os x))"
proof -
  let ?p = "parse_parts os x"
  from assms parse_parts_name_cases[of os x]
  have n: "path_name ?p = last (parts ?p)" "parts ?p \<noteq> []" "\<not> (length (parts ?p) = 1 \<and> anchored ?p)"
    by auto
  show ?thesis
  proof (cases "anchored ?p")
    case True
    with n have "tl (parts ?p) \<noteq> []" by (cases "parts ?p") auto
    moreover from this have "last (tl (parts ?p)) = last (parts ?p)" by (simp add: last_tl)
    ultimately have "set (path_name ?p) \<subseteq> set (py_join (sep os) (tl (parts ?p)))"
      using set_last_join n by metis
    moreover have "py_join (sep os) (tl (parts ?p)) \<noteq> []" using assms calculation by auto
    ultimately show ?thesis using True by (auto simp: path_str_def anchored_def Let_def)
  next
    case False
    have "set (path_name ?p) \<subseteq> set (py_join (sep os) (parts ?p))"
      using set_last_join n by metis
    moreover have "py_join (sep os) (parts ?p) \<noteq> []" using assms calculation by auto
    ultimately show ?thesis using False by (auto simp: path_str_def anchored_def Let_def)
  qed
qed

lemma parse_plain: "plain_name os nn \<Longrightarrow> parse_parts os nn = \<lparr>drv = [], root = [], parts = [nn]\<rparr>"
  using parse_plain_posix[of os nn] parse_plain_nt[of nn]
  by (cases "os = ''nt''") (auto simp: plain_name_def)

lemma with_name_plain:
  assumes "path_name p \<noteq> []" "plain_name os nn"
  shows "with_name os p nn = Inr (p\<lparr>parts := butlast (parts p) @ [nn]\<rparr>)"
proof -
  have ne: "nn \<noteq> []" using assms(2) by (simp add: plain_name_def)
  then have l: "last nn \<in> set nn" by simp
  have "sep os \<notin> set nn" using assms(2) by (auto simp: plain_name_def sep_def)
  with l have a: "last nn \<noteq> sep os" by metis
  have "CHR ''/'' \<notin> set nn" using assms(2) by (simp add: plain_name_def)
  with l have "last nn \<noteq> CHR ''/''" by metis
  then have b: "Some (last nn) \<noteq> altsep os" by (simp add: altsep_def)
  show ?thesis using assms(1) ne a b parse_plain[OF assms(2)]
    by (simp add: with_name_def Let_def)
qed

lemma digit_not_special:
  assumes "(of_char c :: nat) \<in> {48..57}"
  shows "c \<noteq> CHR ''/''" "c \<noteq> CHR 0x5C" "c \<noteq> CHR '':''" "c \<noteq> CHR ''.''"
  using assms by auto

lemma new_name_plain:
  assumes nm: "path_name (parse_parts os x) \<noteq> []"
    and nt: "os = ''nt'' \<Longrightarrow> CHR ''/'' \<notin> set (path_str os (parse_parts os x))
               \<and> CHR 0x5C \<notin> set (path_str os (parse_parts os x))
               \<and> CHR '':'' \<notin> set (path_str os (parse_parts os x))"
    and sfx: "sfx = path_suffix (parse_parts os x) \<or> sfx = ''.log''"
  shows "plain_name os (path_stem (parse_parts os x) @ ''_'' @ strftime_Ymd now @ sfx)"
proof -
  let ?p = "parse_parts os x"
  let ?nn = "path_stem ?p @ ''_'' @ strftime_Ymd now @ sfx"
  have sub: "set (path_stem ?p) \<subseteq> set (path_name ?p)" "set (path_suffix ?p) \<subseteq> set (path_name ?p)"
    by (simp_all add: path_stem_def path_suffix_def set_stem_subset set_suffix_subset)
  have dig: "\<And>c. c \<in> set (strftime_Ymd now) \<Longrightarrow> c \<notin> {CHR ''/'', CHR 0x5C, CHR '':''}"
    using strftime_digits digit_not_special by blast
  have sfxset: "set sfx \<subseteq> set (path_name ?p) \<union> set ''.log''" using sfx sub by auto
  have setnn: "set ?nn \<subseteq> set (path_name ?p) \<union> set ''_.log'' \<union> set (strftime_Ymd now)"
    using sub sfxset by auto
  have nosep: "sep os \<notin> set (path_name ?p)" using nm parse_parts_name_cases[of os x] by auto
  have slash: "CHR ''/'' \<notin> set (path_name ?p)"
  proof (cases "os = ''nt''")
    case True
    then show ?thesis using nt set_name_subset_str[OF nm] by auto
  next
    case False
    then show ?thesis using nosep by (simp add: sep_def)
  qed
  have "CHR ''/'' \<notin> set ?nn" using setnn slash dig by auto
  moreover have "os = ''nt'' \<longrightarrow> CHR 0x5C \<notin> set ?nn \<and> CHR '':'' \<notin> set ?nn"
  proof
    assume o: "os = ''nt''"
    from nt[OF o] set_name_subset_str[OF nm]
    have "CHR 0x5C \<notin> set (path_name ?p)" "CHR '':'' \<notin> set (path_name ?p)" by auto
    then show "CHR 0x5C \<notin> set ?nn \<and> CHR '':'' \<notin> set ?nn" using setnn dig by auto
  qed
  moreover have "length ?nn \<noteq> length ''.''"
    using strftime_nonempty[of now] by (cases "strftime_Ymd now") simp_all
  then have "?nn \<noteq> ''.''" by metis
  moreover have "?nn \<noteq> []" by simp
  ultimately show ?thesis by (simp add: plain_name_def)
qed

lemma name_after_with_name:
  assumes "path_name (parse_parts os x) \<noteq> []"
  shows "path_name ((parse_parts os x)\<lparr>parts := butlast (parts (parse_parts os x)) @ [nn]\<rparr>) = nn"
    and "path_parent ((parse_parts os x)\<lparr>parts := butlast (parts (parse_parts os x)) @ [nn]\<rparr>)
         = path_parent (parse_parts os x)"
proof -
  let ?p = "parse_parts os x"
  from assms parse_parts_name_cases[of os x]
  have n: "parts ?p \<noteq> []" "\<not> (length (parts ?p) = 1 \<and> anchored ?p)" by auto
  then have len: "length (butlast (parts ?p) @ [nn]) = length (parts ?p)" by simp
  have k: "length (parts ?p) \<noteq> (if drv ?p \<noteq> [] \<or> root ?p \<noteq> [] then 1 else 0)"
    using n by (auto simp: anchored_def)
  have ge: "length (parts ?p) \<ge> 1" using n(1) by (cases "parts ?p") auto
  show "path_name (?p\<lparr>parts := butlast (parts ?p) @ [nn]\<rparr>) = nn"
    using k n ge by (auto simp: path_name_def anchored_def)
  show "path_parent (?p\<lparr>parts := butlast (parts ?p) @ [nn]\<rparr>) = path_parent ?p"
    using n len by (auto simp: path_parent_def anchored_def)
qed

lemma new_name_stem_suffix:
  assumes "sfx = suffix_of_name nm \<and> sfx \<noteq> [] \<or> sfx = ''.log''"
  shows "stem_of_name (stem_of_name nm @ ''_'' @ strftime_Ymd now @ sfx) = stem_of_name nm @ ''_'' @ strftime_Ymd now"
    and "suffix_of_name (stem_of_name nm @ ''_'' @ strftime_Ymd now @ sfx) = sfx"
proof -
  obtain ext where e: "sfx = CHR ''.'' # ext" "ext \<noteq> []" "CHR ''.'' \<notin> set ext"
    using assms suffix_structure[of nm] by auto
  have ne: "stem_of_name nm @ ''_'' @ strftime_Ymd now \<noteq> []" by simp
  have eq: "stem_of_name nm @ ''_'' @ strftime_Ymd now @ sfx
            = (stem_of_name nm @ ''_'' @ strftime_Ymd now) @ CHR ''.'' # ext"
    using e by simp
  show "stem_of_name (stem_of_name nm @ ''_'' @ strftime_Ymd now @ sfx) = stem_of_name nm @ ''_'' @ strftime_Ymd now"
    unfolding eq using stem_suffix_append(1)[OF ne e(2,3)] .
  show "suffix_of_name (stem_of_name nm @ ''_'' @ strftime_Ymd now @ sfx) = sfx"
    unfolding eq using stem_suffix_append(2)[OF ne e(2,3)] e(1) by simp
qed

lemma invalid_chars_mem:
  "\<not> list_ex (\<lambda>ch. ch \<in> set s) invalid_chars \<Longrightarrow>
     CHR ''/'' \<notin> set s \<and> CHR 0x5C \<notin> set s \<and> CHR '':'' \<notin> set s"
  by (simp add: invalid_chars_def)

lemma create_file_path_dated:
  assumes fn: "fname = FStr x \<or> fname = FPath x"
    and blank: "py_strip (path_str os (Path os x)) \<noteq> []"
    and nul: "CHR 0x00 \<notin> set (path_str os (Path os x))"
    and chars: "os = ''nt'' \<Longrightarrow> \<not> list_ex (\<lambda>ch. ch \<in> set (path_str os (Path os x))) invalid_chars"
    and res: "os = ''nt'' \<Longrightarrow> \<not> list_ex (\<lambda>part. py_upper (path_stem (Path os part)) \<in> set reserved) (parts (Path os x))"
    and nm: "path_name (Path os x) \<noteq> []"
  shows "create_file_path os now fname True =
           Inr ((Path os x)\<lparr>parts := butlast (parts (Path os x)) @
                  [path_stem (Path os x) @ ''_'' @ strftime_Ymd now @
                   (if path_suffix (Path os x) \<noteq> [] then path_suffix (Path os x) else DEFAULT_FILE_EXTENSION)]\<rparr>)"
proof -
  let ?p = "Path os x"
  let ?sfx = "if path_suffix ?p \<noteq> [] then path_suffix ?p else DEFAULT_FILE_EXTENSION"
  have pl: "plain_name os (path_stem ?p @ ''_'' @ strftime_Ymd now @ ?sfx)"
    unfolding Path_def
    apply (rule new_name_plain)
    using nm chars invalid_chars_mem by (auto simp: Path_def DEFAULT_FILE_EXTENSION_def)
  have wn: "with_name os ?p (path_stem ?p @ ''_'' @ strftime_Ymd now @ ?sfx)
        = Inr (?p\<lparr>parts := butlast (parts ?p) @ [path_stem ?p @ ''_'' @ strftime_Ymd now @ ?sfx]\<rparr>)"
    using with_name_plain[OF nm pl] .
  have c: "path_argument fname = x" "isinstance_str_or_Path fname = True"
    "(fname = FNone \<and> True) = False" "(fname = FNone) = False"
    using fn by auto
  have guard: "\<not> (os = ''nt'' \<and> list_ex (\<lambda>ch. ch \<in> set (path_str os ?p)) invalid_chars)"
       "\<not> (os = ''nt'' \<and> list_ex (\<lambda>part. py_upper (path_stem (Path os part)) \<in> set reserved) (parts ?p))"
    using chars res by auto
  have g1: "(os = ''nt'' \<and> list_ex (\<lambda>ch. ch \<in> set (path_str os ?p)) invalid_chars) = False"
    using guard(1) by simp
  have g2: "(os = ''nt'' \<and> list_ex (\<lambda>part. py_upper (path_stem (Path os part)) \<in> set reserved) (parts ?p)) = False"
    using guard(2) by simp
  have b: "(py_strip (path_str os ?p) = []) = False" using blank by simp
  have n: "(CHR 0x00 \<in> set (path_str os ?p)) = False" using nul by simp
  show ?thesis
    unfolding create_file_path_def Let_def
    by (simp only: c b n g1 g2 if_False if_True wn simp_thms)
qed
lemma date_no_special:
  "CHR ''/'' \<notin> set (strftime_Ymd now)" "CHR 0x5C \<notin> set (strftime_Ymd now)"
  "CHR '':'' \<notin> set (strftime_Ymd now)" "CHR ''.'' \<notin> set (strftime_Ymd now)"
  using strftime_digits[of _ now] digit_not_special by blast+

lemma plain_default_dated: "plain_name os (DEFAULT_FILE_NAME @ ''_'' @ strftime_Ymd now @ DEFAULT_FILE_EXTENSION)"
proof -
  let ?nn = "DEFAULT_FILE_NAME @ ''_'' @ strftime_Ymd now @ DEFAULT_FILE_EXTENSION"
  have "CHR ''/'' \<notin> set ?nn" "CHR 0x5C \<notin> set ?nn" "CHR '':'' \<notin> set ?nn"
    using date_no_special[of now]
    by (simp_all add: DEFAULT_FILE_NAME_def DEFAULT_FILE_EXTENSION_def)
  moreover have "length ?nn \<noteq> length ''.''"
    using strftime_nonempty[of now] by (cases "strftime_Ymd now") simp_all
  then have "?nn \<noteq> ''.''" by metis
  moreover have "?nn \<noteq> []" by (simp add: DEFAULT_FILE_NAME_def)
  ultimately show ?thesis by (simp add: plain_name_def)
qed

lemma plain_default: "plain_name os (DEFAULT_FILE_NAME @ DEFAULT_FILE_EXTENSION)"
  by (simp add: plain_name_def DEFAULT_FILE_NAME_def DEFAULT_FILE_EXTENSION_def)

lemma single_part_path:
  "path_name \<lparr>drv = [], root = [], parts = [nm]\<rparr> = nm"
  "path_parent \<lparr>drv = [], root = [], parts = [nm]\<rparr> = \<lparr>drv = [], root = [], parts = []\<rparr>"
  "nm \<noteq> [] \<Longrightarrow> path_str os \<lparr>drv = [], root = [], parts = [nm]\<rparr> = nm"
  by (simp_all add: path_name_def path_parent_def path_str_def)

lemma Path_dot: "Path os ''.'' = \<lparr>drv = [], root = [], parts = []\<rparr>"
proof (cases "os = ''nt''")
  case True
  have "Path ''nt'' ''.'' = \<lparr>drv = [], root = [], parts = []\<rparr>" by code_simp
  with True show ?thesis by simp
next
  case False
  then show ?thesis
    by (simp add: Path_def parse_parts_def altsep_def sep_def splitroot_def posix_splitroot_def)
qed


lemma strftime_example: "strftime_Ymd \<lparr>year = 2024, month = 1, day = 2\<rparr> = ''20240102''"
  by code_simp

lemma strftime_short_year: "strftime_Ymd \<lparr>year = 999, month = 1, day = 2\<rparr> = ''9990102''"
  by code_simp

section \<open>Facts about the resolver\<close>

lemma create_file_path_named:
  assumes "fname = FStr x \<or> fname = FPath x"
  shows "create_file_path os now fname add =
     (if py_strip (path_str os (Path os x)) = [] then
        Inl (Exc ValueError ''`file_name` cannot be empty.'')
      else if CHR 0x00 \<in> set (path_str os (Path os x)) then
        Inl (Exc ValueError ''`file_name` contains null byte.'')
      else if os = ''nt'' \<and> list_ex (\<lambda>ch. ch \<in> set (path_str os (Path os x))) invalid_chars then
        Inl (Exc ValueError ''`file_name` contains invalid characters for Windows paths.'')
      else if os = ''nt''
              \<and> list_ex (\<lambda>part. py_upper (path_stem (Path os part)) \<in> set reserved)
                   (parts (Path os x)) then
        Inl (Exc ValueError ''`file_name` path contains reserved Windows device name component.'')
      else if add then
        with_name os (Path os x)
          (path_stem (Path os x) @ ''_'' @ strftime_Ymd now @
           (if path_suffix (Path os x) \<noteq> [] then path_suffix (Path os x)
            else DEFAULT_FILE_EXTENSION))
      else if path_suffix (Path os x) = [] then with_suffix os (Path os x) DEFAULT_FILE_EXTENSION
      else Inr (Path os x))"
proof -
  have c: "path_argument fname = x" "isinstance_str_or_Path fname = True"
    "(fname = FNone \<and> add) = False" "(fname = FNone) = False"
    using assms by auto
  show ?thesis
    unfolding create_file_path_def Let_def
    by (simp only: c if_False if_True simp_thms)
qed

lemma create_file_path_rejects:
  assumes fn: "fname = FStr x \<or> fname = FPath x"
    and bad: "py_strip (path_str os (Path os x)) = [] \<or> CHR 0x00 \<in> set (path_str os (Path os x))
       \<or> (os = ''nt'' \<and> list_ex (\<lambda>ch. ch \<in> set (path_str os (Path os x))) invalid_chars)
       \<or> (os = ''nt'' \<and> list_ex (\<lambda>part. py_upper (path_stem (Path os part)) \<in> set reserved)
                   (parts (Path os x)))"
  shows "\<exists>m. create_file_path os now fname add = Inl (Exc ValueError m)"
proof -
  let ?B = "py_strip (path_str os (Path os x)) = []"
  let ?N = "CHR 0x00 \<in> set (path_str os (Path os x))"
  let ?I = "os = ''nt'' \<and> list_ex (\<lambda>ch. ch \<in> set (path_str os (Path os x))) invalid_chars"
  let ?R = "os = ''nt'' \<and> list_ex (\<lambda>part. py_upper (path_stem (Path os part)) \<in> set reserved)
                   (parts (Path os x))"
  note d = create_file_path_named[OF fn, of os now add]
  show ?thesis
  proof (cases ?B)
    case True
    then show ?thesis unfolding d if_P[OF True] by blast
  next
    case b: False
    show ?thesis
    proof (cases ?N)
      case True
      then show ?thesis unfolding d if_not_P[OF b] if_P[OF True] by blast
    next
      case n: False
      show ?thesis
      proof (cases ?I)
        case True
        then show ?thesis unfolding d if_not_P[OF b] if_not_P[OF n] if_P[OF True] by blast
      next
        case i: False
        with bad b n have r: ?R by blast
        show ?thesis unfolding d if_not_P[OF b] if_not_P[OF n] if_not_P[OF i] if_P[OF r] by blast
      qed
    qed
  qed
qed

lemma with_suffix_log:
  "with_suffix os p DEFAULT_FILE_EXTENSION =
     (if path_name p = [] then Inl (Exc ValueError ''has an empty name'')
      else Inr (p\<lparr>parts := butlast (parts p) @
                  [if path_suffix p = [] then path_name p @ ''.log''
                   else take (length (path_name p) - length (path_suffix p)) (path_name p) @ ''.log'']\<rparr>))"
  by (simp add: with_suffix_def DEFAULT_FILE_EXTENSION_def sep_def altsep_def py_startswith_def Let_def)

lemma suffix_of_empty: "suffix_of_name [] = []"
  by (simp add: suffix_of_name_def py_rfind_def)

lemma create_file_path_other_platforms:
  assumes os: "os \<noteq> ''nt''" and fn: "fname = FStr x \<or> fname = FPath x"
  shows "(\<exists>q. create_file_path os now fname add = Inr q) \<longleftrightarrow>
         (py_strip (path_str os (Path os x)) \<noteq> [] \<and> CHR 0x00 \<notin> set (path_str os (Path os x))
          \<and> path_name (Path os x) \<noteq> [])"
proof
  assume acc: "\<exists>q. create_file_path os now fname add = Inr q"
  have b: "py_strip (path_str os (Path os x)) \<noteq> []" "CHR 0x00 \<notin> set (path_str os (Path os x))"
    using acc create_file_path_rejects[OF fn, of os now add] by auto
  have "path_name (Path os x) \<noteq> []"
  proof
    assume e: "path_name (Path os x) = []"
    then have s: "path_suffix (Path os x) = []" by (simp add: path_suffix_def suffix_of_empty)
    have "\<exists>m. create_file_path os now fname add = Inl (Exc ValueError m)"
      unfolding create_file_path_named[OF fn, of os now add]
      using b os e s by (simp add: with_name_def with_suffix_log)
    with acc show False by auto
  qed
  with b show "py_strip (path_str os (Path os x)) \<noteq> [] \<and> CHR 0x00 \<notin> set (path_str os (Path os x))
          \<and> path_name (Path os x) \<noteq> []" by simp
next
  assume h: "py_strip (path_str os (Path os x)) \<noteq> [] \<and> CHR 0x00 \<notin> set (path_str os (Path os x))
          \<and> path_name (Path os x) \<noteq> []"
  show "\<exists>q. create_file_path os now fname add = Inr q"
  proof (cases add)
    case True
    have "create_file_path os now fname True = Inr ((Path os x)\<lparr>parts := butlast (parts (Path os x)) @
                  [path_stem (Path os x) @ ''_'' @ strftime_Ymd now @
                   (if path_suffix (Path os x) \<noteq> [] then path_suffix (Path os x) else DEFAULT_FILE_EXTENSION)]\<rparr>)"
      using create_file_path_dated[OF fn, of os now] h os by blast
    with True show ?thesis by simp
  next
    case False
    show ?thesis
      unfolding create_file_path_named[OF fn, of os now add]
      using h os False by (simp add: with_suffix_log)
  qed
qed

lemma reserved_names:
  "reserved = [''CON'', ''PRN'', ''AUX'', ''NUL'',
     ''COM1'', ''COM2'', ''COM3'', ''COM4'', ''COM5'', ''COM6'', ''COM7'', ''COM8'', ''COM9'',
     ''LPT1'', ''LPT2'', ''LPT3'', ''LPT4'', ''LPT5'', ''LPT6'', ''LPT7'', ''LPT8'', ''LPT9'']"
  by code_simp

lemma with_name_message:
  "with_name os p n \<noteq> Inl (Exc ValueError '''file_name' should be of type 'str', 'Path', or 'None'.'')"
  by (simp add: with_name_def Let_def)

lemma with_suffix_message:
  "with_suffix os p n \<noteq> Inl (Exc ValueError '''file_name' should be of type 'str', 'Path', or 'None'.'')"
  by (simp add: with_suffix_def Let_def)


section \<open>Facts about the registry, construction and \<open>close\<close>\<close>

lemma perform_fields:
  "trace (snd (perform e w)) = trace w @ [e]"
  "loggers (snd (perform e w)) = loggers w"
  "platform (snd (perform e w)) = platform w"
  "clock (snd (perform e w)) = clock w"
  "failing (snd (perform e w)) = failing w"
  by (simp_all add: perform_def)

lemma perform_ok:
  "\<not> failing w (trace w) e \<Longrightarrow> perform e w = (Inr (), w\<lparr>trace := trace w @ [e]\<rparr>)"
  by (simp add: perform_def)

lemma try_except_pass_perform:
  "try_except_pass (perform e w) = w\<lparr>trace := trace w @ [e]\<rparr>"
  by (simp add: try_except_pass_def perform_def)

lemma setLevel_fields:
  "trace (setLevel k l w) = trace w"
  "handlers (loggers (setLevel k l w) k') = handlers (loggers w k')"
  "level (loggers (setLevel k l w) k) = l"
  "platform (setLevel k l w) = platform w"
  "clock (setLevel k l w) = clock w"
  "failing (setLevel k l w) = failing w"
  by (simp_all add: setLevel_def)

lemma addHandler_fields:
  "trace (addHandler k h w) = trace w"
  "level (loggers (addHandler k h w) k') = level (loggers w k')"
  "platform (addHandler k h w) = platform w"
  "clock (addHandler k h w) = clock w"
  "failing (addHandler k h w) = failing w"
  "handlers (loggers (addHandler k h w) k') =
     (if k' = k \<and> h \<notin> set (handlers (loggers w k)) then handlers (loggers w k) @ [h]
      else handlers (loggers w k'))"
  by (simp_all add: addHandler_def)

lemma removeHandler_fields:
  "trace (removeHandler k h w) = trace w"
  "level (loggers (removeHandler k h w) k') = level (loggers w k')"
  "platform (removeHandler k h w) = platform w"
  "clock (removeHandler k h w) = clock w"
  "failing (removeHandler k h w) = failing w"
  "handlers (loggers (removeHandler k h w) k') =
     (if k' = k then remove1 h (handlers (loggers w k)) else handlers (loggers w k'))"
  by (simp_all add: removeHandler_def remove1_idem)

lemma close_loop_fields:
  "trace (close_loop k hs w) = trace w @ concat (map (\<lambda>h. [Flush h, Close h]) hs)"
  "platform (close_loop k hs w) = platform w"
  "clock (close_loop k hs w) = clock w"
  "failing (close_loop k hs w) = failing w"
  "level (loggers (close_loop k hs w) k') = level (loggers w k')"
  "handlers (loggers (close_loop k hs w) k') =
     (if k' = k then fold remove1 hs (handlers (loggers w k)) else handlers (loggers w k'))"
  by (induction hs arbitrary: w)
     (simp_all add: Let_def try_except_pass_perform removeHandler_fields)

lemma fold_remove1_prefix: "fold remove1 xs (xs @ ys) = ys"
  by (induction xs) simp_all

lemma fold_remove1_self: "fold remove1 xs xs = []"
  using fold_remove1_prefix[of xs "[]"] by simp

lemma close_loop_empty: "handlers (loggers w k) = [] \<Longrightarrow> close k w = (Inr (), w)"
  by (simp add: close_def)

lemma close_handlers:
  "handlers (loggers (snd (close k w)) k') = (if k' = k then [] else handlers (loggers w k'))"
  by (simp add: close_def close_loop_fields fold_remove1_self)

lemma close_trace:
  "trace (snd (close k w)) =
     trace w @ concat (map (\<lambda>h. [Flush h, Close h]) (handlers (loggers w k)))"
  by (simp add: close_def close_loop_fields)

lemma close_twice: "close k (snd (close k w)) = (Inr (), snd (close k w))"
  by (rule close_loop_empty) (simp add: close_handlers)

lemma close_env:
  "platform (snd (close k w)) = platform w" "clock (snd (close k w)) = clock w"
  "failing (snd (close k w)) = failing w"
  "level (loggers (snd (close k w)) k') = level (loggers w k')"
  by (simp_all add: close_def close_loop_fields)

lemma new_file_handler_not_stream: "fst (new_file_handler a fp) \<noteq> StreamSink"
  by (simp add: new_file_handler_def Let_def)

lemma attach_sinks_error:
  "create_file_path (platform w) (clock w) (file_name a) (add_date_suffix_to_file_name a) = Inl e
   \<Longrightarrow> attach_sinks a k w = (Inl e, w)"
  by (simp add: attach_sinks_def)

lemma attach_sinks_ok:
  assumes fp: "create_file_path (platform w) (clock w) (file_name a)
                 (add_date_suffix_to_file_name a) = Inr fp"
    and m: "\<not> failing w (trace w) (MkdirParents (path_parent fp))"
    and o: "\<not> failing w (trace w @ [MkdirParents (path_parent fp)]) (snd (new_file_handler a fp))"
    and fl: "checkLevel (file_level a) = Inr fl"
    and cl: "checkLevel (console_level a) = Inr cl"
    and e: "handlers (loggers w k) = []"
  shows "attach_sinks a k w =
     (Inr k, w\<lparr>trace := trace w @ [MkdirParents (path_parent fp), snd (new_file_handler a fp)],
               loggers := (loggers w)(k := (loggers w k)\<lparr>handlers :=
                  [\<lparr>sink = fst (new_file_handler a fp),
                    hformatter = Some IndentedMessageFormatter, hlevel = fl\<rparr>,
                   \<lparr>sink = StreamSink,
                    hformatter = Some ColoredIndentedMessageFormatter, hlevel = cl\<rparr>]\<rparr>)\<rparr>)"
proof -
  let ?w1 = "w\<lparr>trace := trace w @ [MkdirParents (path_parent fp)]\<rparr>"
  let ?w2 = "?w1\<lparr>trace := trace ?w1 @ [snd (new_file_handler a fp)]\<rparr>"
  have p1: "perform (MkdirParents (path_parent fp)) w = (Inr (), ?w1)"
    using m by (rule perform_ok)
  have p2: "perform (snd (new_file_handler a fp)) ?w1 = (Inr (), ?w2)"
    by (rule perform_ok) (use o in simp)
  show ?thesis
    unfolding attach_sinks_def
    by (simp add: fp p1 p2 fl cl e addHandler_def new_file_handler_not_stream Let_def)
qed

lemma attach_sinks_frame:
  "platform (snd (attach_sinks a k w)) = platform w"
  "clock (snd (attach_sinks a k w)) = clock w"
  "failing (snd (attach_sinks a k w)) = failing w"
  "level (loggers (snd (attach_sinks a k w)) k') = level (loggers w k')"
  "k' \<noteq> k \<Longrightarrow> handlers (loggers (snd (attach_sinks a k w)) k') = handlers (loggers w k')"
  unfolding attach_sinks_def
  by (simp_all add: perform_def addHandler_def Let_def split: sum.splits prod.splits)

lemma attach_sinks_Inr:
  assumes "attach_sinks a k w = (Inr k', w')"
  shows "k' = k \<and> handlers (loggers w' k) \<noteq> []"
  using assms unfolding attach_sinks_def
  by (auto simp: perform_def addHandler_def Let_def split: sum.splits prod.splits if_splits)

lemma init_level_error:
  "py_min (console_level a) (file_level a) = Inl e \<Longrightarrow> TidyLogger_init a w = (Inl e, w)"
  "py_min (console_level a) (file_level a) = Inr m \<Longrightarrow> checkLevel m = Inl e
     \<Longrightarrow> TidyLogger_init a w = (Inl e, w)"
  by (simp_all add: TidyLogger_init_def Let_def)

lemma init_levels_ok:
  assumes "py_min (console_level a) (file_level a) = Inr m" "checkLevel m = Inr l"
  shows "TidyLogger_init a w =
     (if handlers (loggers w (logger_key a)) = []
      then attach_sinks a (logger_key a) (setLevel (logger_key a) l w)
      else (Inr (logger_key a), setLevel (logger_key a) l w))"
  using assms by (simp add: TidyLogger_init_def Let_def logger_key_def setLevel_fields)

lemma init_cases:
  obtains (min_error) e where "py_min (console_level a) (file_level a) = Inl e"
      "TidyLogger_init a w = (Inl e, w)"
  | (level_error) m e where "py_min (console_level a) (file_level a) = Inr m"
      "checkLevel m = Inl e" "TidyLogger_init a w = (Inl e, w)"
  | (guarded) m l where "py_min (console_level a) (file_level a) = Inr m" "checkLevel m = Inr l"
      "handlers (loggers w (logger_key a)) \<noteq> []"
      "TidyLogger_init a w = (Inr (logger_key a), setLevel (logger_key a) l w)"
  | (attach) m l where "py_min (console_level a) (file_level a) = Inr m" "checkLevel m = Inr l"
      "handlers (loggers w (logger_key a)) = []"
      "TidyLogger_init a w = attach_sinks a (logger_key a) (setLevel (logger_key a) l w)"
proof (cases "py_min (console_level a) (file_level a)")
  case (Inl e)
  then show ?thesis using min_error init_level_error(1) by blast
next
  case (Inr m)
  show ?thesis
  proof (cases "checkLevel m")
    case (Inl e)
    then show ?thesis using level_error Inr init_level_error(2) by blast
  next
    case l: (Inr l)
    show ?thesis
    proof (cases "handlers (loggers w (logger_key a)) = []")
      case True
      then show ?thesis using attach[OF Inr l] init_levels_ok[OF Inr l, of w] by simp
    next
      case False
      then show ?thesis using guarded[OF Inr l] init_levels_ok[OF Inr l, of w] by simp
    qed
  qed
qed

lemma init_guarded_frame:
  assumes "handlers (loggers w (logger_key a)) \<noteq> []"
  shows "trace (snd (TidyLogger_init a w)) = trace w"
    and "handlers (loggers (snd (TidyLogger_init a w)) k) = handlers (loggers w k)"
    and "platform (snd (TidyLogger_init a w)) = platform w"
    and "clock (snd (TidyLogger_init a w)) = clock w"
    and "failing (snd (TidyLogger_init a w)) = failing w"
    and "k \<noteq> logger_key a \<Longrightarrow> loggers (snd (TidyLogger_init a w)) k = loggers w k"
  using assms by (cases a w rule: init_cases; simp add: setLevel_fields setLevel_def)+

lemma init_success_nonempty:
  assumes "TidyLogger_init a w = (Inr k, w')"
  shows "k = logger_key a \<and> handlers (loggers w' k) \<noteq> []"
proof (cases a w rule: init_cases)
  case (min_error e)
  with assms show ?thesis by simp
next
  case (level_error m e)
  with assms show ?thesis by simp
next
  case (guarded m l)
  with assms show ?thesis by (auto simp: setLevel_fields)
next
  case (attach m l)
  with assms attach_sinks_Inr show ?thesis by metis
qed

lemma init_level_set:
  assumes "py_min (console_level a) (file_level a) = Inr m" "checkLevel m = Inr l"
  shows "level (loggers (snd (TidyLogger_init a w)) (logger_key a)) = l"
  unfolding init_levels_ok[OF assms]
  by (simp add: attach_sinks_frame setLevel_fields)

lemma name_key: "name a2 = name a \<Longrightarrow> logger_key a2 = logger_key a"
  by (simp add: logger_key_def)

lemma fresh_init_fst: "fst (TidyLogger_init default_args fresh_world) = Inr ''TidyLogger''"
  by code_simp

lemma fresh_init_handlers:
  "handlers (loggers (snd (TidyLogger_init default_args fresh_world)) ''TidyLogger'') =
     [\<lparr>sink = FileSink \<lparr>drv = [], root = [], parts = [''log_20240102.log'']\<rparr> ''a'',
       hformatter = Some IndentedMessageFormatter, hlevel = 10\<rparr>,
      \<lparr>sink = StreamSink, hformatter = Some ColoredIndentedMessageFormatter, hlevel = 20\<rparr>]"
  by code_simp

lemma fresh_init_trace:
  "trace (snd (TidyLogger_init default_args fresh_world)) =
     [MkdirParents \<lparr>drv = [], root = [], parts = []\<rparr>,
      OpenFile \<lparr>drv = [], root = [], parts = [''log_20240102.log'']\<rparr> ''a'']"
  by code_simp


lemma py_min_int: "py_min (LInt c) (LInt f) = Inr (LInt (min c f))"
  by (simp add: min_def)

lemma py_min_result: "py_min x y = Inr m \<Longrightarrow> m = x \<or> m = y"
  by (cases x; cases y) (auto split: if_splits)

lemma init_resolver_error:
  assumes e: "create_file_path (platform w) (clock w) (file_name a)
                (add_date_suffix_to_file_name a) = Inl e"
  shows "trace (snd (TidyLogger_init a w)) = trace w"
    and "handlers (loggers (snd (TidyLogger_init a w)) k) = handlers (loggers w k)"
    and "handlers (loggers w (logger_key a)) = [] \<Longrightarrow>
         py_min (console_level a) (file_level a) = Inr m \<Longrightarrow> checkLevel m = Inr l \<Longrightarrow>
         fst (TidyLogger_init a w) = Inl e"
proof -
  have at: "attach_sinks a k' (setLevel k' l' w) = (Inl e, setLevel k' l' w)" for k' l'
    by (rule attach_sinks_error) (simp add: setLevel_fields e)
  show "trace (snd (TidyLogger_init a w)) = trace w"
    by (cases a w rule: init_cases) (simp_all add: at setLevel_fields)
  show "handlers (loggers (snd (TidyLogger_init a w)) k) = handlers (loggers w k)"
    by (cases a w rule: init_cases) (simp_all add: at setLevel_fields)
  show "fst (TidyLogger_init a w) = Inl e"
    if "handlers (loggers w (logger_key a)) = []"
      "py_min (console_level a) (file_level a) = Inr m" "checkLevel m = Inr l"
    using init_levels_ok[OF that(2,3), of w] that(1) by (simp add: at)
qed

lemma Path_empty: "Path os [] = \<lparr>drv = [], root = [], parts = []\<rparr>"
  by (simp add: Path_def parse_parts_def)

lemma create_file_path_empty_string:
  "create_file_path os now (FStr []) add = Inl (Exc ValueError ''has an empty name'')"
proof -
  have s: "path_str os \<lparr>drv = [], root = [], parts = []\<rparr> = ''.''"
    by (simp add: path_str_def)
  have b: "py_strip ''.'' \<noteq> []" by (simp add: py_strip_def py_isspace_def)
  have i: "\<not> list_ex (\<lambda>ch. ch \<in> set ''.'') invalid_chars" by (simp add: invalid_chars_def)
  have n: "path_name \<lparr>drv = [], root = [], parts = []\<rparr> = []" by (simp add: path_name_def)
  have x: "path_suffix \<lparr>drv = [], root = [], parts = []\<rparr> = []"
    by (simp add: path_suffix_def n suffix_of_empty)
  show ?thesis
    unfolding create_file_path_named[of "FStr []" "[]" os now add, simplified] Path_empty s
    using b i n x by (simp add: with_name_def with_suffix_log)
qed


lemma init_after_close:
  assumes k: "logger_key a = k"
    and fp: "create_file_path (platform w) (clock w) (file_name a)
               (add_date_suffix_to_file_name a) = Inr fp"
    and fl: "checkLevel (file_level a) = Inr fl"
    and cl: "checkLevel (console_level a) = Inr cl"
    and pm: "py_min (console_level a) (file_level a) = Inr m"
    and nf: "\<forall>t e. \<not> failing w t e"
  shows "fst (TidyLogger_init a (snd (close k w))) = Inr k"
    and "handlers (loggers (snd (TidyLogger_init a (snd (close k w)))) k) =
           [\<lparr>sink = fst (new_file_handler a fp),
             hformatter = Some IndentedMessageFormatter, hlevel = fl\<rparr>,
            \<lparr>sink = StreamSink,
             hformatter = Some ColoredIndentedMessageFormatter, hlevel = cl\<rparr>]"
proof -
  let ?w = "snd (close k w)"
  obtain l where l: "checkLevel m = Inr l" using py_min_result[OF pm] fl cl by auto
  let ?v = "setLevel k l ?w"
  have e: "handlers (loggers ?w (logger_key a)) = []" by (simp add: k close_handlers)
  have i: "TidyLogger_init a ?w = attach_sinks a k ?v"
    using init_levels_ok[OF pm l, of ?w] e by (simp add: k)
  have fp': "create_file_path (platform ?v) (clock ?v) (file_name a)
               (add_date_suffix_to_file_name a) = Inr fp"
    by (simp add: setLevel_fields close_env fp)
  have nf': "\<not> failing ?v t e" for t e by (simp add: setLevel_fields close_env nf)
  have e': "handlers (loggers ?v k) = []" by (simp add: setLevel_fields close_handlers)
  note at = attach_sinks_ok[OF fp' nf' nf' fl cl e']
  show "fst (TidyLogger_init a ?w) = Inr k" unfolding i at by simp
  show "handlers (loggers (snd (TidyLogger_init a ?w)) k) =
           [\<lparr>sink = fst (new_file_handler a fp),
             hformatter = Some IndentedMessageFormatter, hlevel = fl\<rparr>,
            \<lparr>sink = StreamSink,
             hformatter = Some ColoredIndentedMessageFormatter, hlevel = cl\<rparr>]"
    unfolding i at by simp
qed





text \<open>
  The level arguments may be strings.  \<open>min\<close> then compares the names as text: with
  \<open>console_level = "WARNING"\<close> and \<open>file_level = "ERROR"\<close> the logger's level becomes 40
  (\<open>ERROR\<close>), above the console handler's threshold 30, so that a record of severity
  \<open>WARNING\<close> reaches no handler; and with the default integer console level and
  \<open>file_level = "DEBUG"\<close> construction raises \<open>TypeError\<close>.
\<close>

lemma string_levels_threshold:
  "checkLevel (LStr ''WARNING'') = Inr 30 \<and> checkLevel (LStr ''ERROR'') = Inr 40
   \<and> fst (TidyLogger_init
        (default_args\<lparr>console_level := LStr ''WARNING'', file_level := LStr ''ERROR''\<rparr>)
        fresh_world) = Inr ''TidyLogger''
   \<and> level (loggers (snd (TidyLogger_init
        (default_args\<lparr>console_level := LStr ''WARNING'', file_level := LStr ''ERROR''\<rparr>)
        fresh_world)) ''TidyLogger'') = 40
   \<and> map hlevel (handlers (loggers (snd (TidyLogger_init
        (default_args\<lparr>console_level := LStr ''WARNING'', file_level := LStr ''ERROR''\<rparr>)
        fresh_world)) ''TidyLogger'')) = [40, 30]
   \<and> warning ''TidyLogger'' (snd (TidyLogger_init
        (default_args\<lparr>console_level := LStr ''WARNING'', file_level := LStr ''ERROR''\<rparr>)
        fresh_world)) 30 = []
   \<and> fst (TidyLogger_init (default_args\<lparr>file_level := LStr ''DEBUG''\<rparr>) fresh_world)
        = Inl (Exc TypeError ''< not supported between instances of str and int'')"
  by code_simp


section \<open>The idempotency guard\<close>

text \<open>
  Claim C1.  If the logger registered under the effective name already has a handler when
  the facade is constructed, construction attaches no handler to any logger and makes no
  call to the file system: the trace of calls is unchanged, and no error of the resolver
  can arise, the only possible exceptions being those of the level arguments.  Hence,
  after a construction that succeeded, a further construction under the same name leaves
  the handlers of every logger and the trace as they are, whatever its other arguments.
\<close>

theorem init_idempotency_guard:
  "(handlers (loggers w (logger_key a)) \<noteq> [] \<longrightarrow>
      trace (snd (TidyLogger_init a w)) = trace w
      \<and> (\<forall>k. handlers (loggers (snd (TidyLogger_init a w)) k) = handlers (loggers w k))
      \<and> (\<forall>e. fst (TidyLogger_init a w) = Inl e \<longrightarrow>
             py_min (console_level a) (file_level a) = Inl e
             \<or> (\<exists>m. py_min (console_level a) (file_level a) = Inr m \<and> checkLevel m = Inl e)))
   \<and> (TidyLogger_init a w = (Inr k1, w1) \<and> name a2 = name a \<longrightarrow>
      trace (snd (TidyLogger_init a2 w1)) = trace w1
      \<and> (\<forall>k. handlers (loggers (snd (TidyLogger_init a2 w1)) k) = handlers (loggers w1 k)))"
proof (intro conjI impI)
  assume h: "handlers (loggers w (logger_key a)) \<noteq> []"
  show "trace (snd (TidyLogger_init a w)) = trace w"
    by (rule init_guarded_frame(1)[OF h])
  show "\<forall>k. handlers (loggers (snd (TidyLogger_init a w)) k) = handlers (loggers w k)"
    using init_guarded_frame(2)[OF h] by blast
  show "\<forall>e. fst (TidyLogger_init a w) = Inl e \<longrightarrow>
             py_min (console_level a) (file_level a) = Inl e
             \<or> (\<exists>m. py_min (console_level a) (file_level a) = Inr m \<and> checkLevel m = Inl e)"
    using h by (cases a w rule: init_cases) auto
next
  assume s: "TidyLogger_init a w = (Inr k1, w1) \<and> name a2 = name a"
  then have "k1 = logger_key a \<and> handlers (loggers w1 k1) \<noteq> []"
    using init_success_nonempty[of a w k1 w1] by blast
  moreover have "logger_key a2 = logger_key a" using s name_key[of a2 a] by blast
  ultimately have "handlers (loggers w1 (logger_key a2)) \<noteq> []" by metis
  then show "trace (snd (TidyLogger_init a2 w1)) = trace w1"
    "\<forall>k. handlers (loggers (snd (TidyLogger_init a2 w1)) k) = handlers (loggers w1 k)"
    using init_guarded_frame(1,2) by blast+
qed

theorem init_idempotency_guard_witness:
  "handlers (loggers (snd (TidyLogger_init default_args fresh_world)) ''TidyLogger'') \<noteq> []
   \<and> trace (snd (TidyLogger_init (default_args\<lparr>file_name := FStr ''other/dir/x.txt''\<rparr>)
               (snd (TidyLogger_init default_args fresh_world))))
       = [MkdirParents \<lparr>drv = [], root = [], parts = []\<rparr>,
          OpenFile \<lparr>drv = [], root = [], parts = [''log_20240102.log'']\<rparr> ''a'']
   \<and> length (handlers (loggers
         (snd (TidyLogger_init (default_args\<lparr>file_name := FStr ''other/dir/x.txt''\<rparr>)
               (snd (TidyLogger_init default_args fresh_world)))) ''TidyLogger'')) = 2"
proof -
  let ?w1 = "snd (TidyLogger_init default_args fresh_world)"
  let ?a2 = "default_args\<lparr>file_name := FStr ''other/dir/x.txt''\<rparr>"
  have i: "TidyLogger_init default_args fresh_world = (Inr ''TidyLogger'', ?w1)"
    using fresh_init_fst by (metis prod.collapse)
  have n: "name ?a2 = name default_args" by simp
  from init_idempotency_guard[of fresh_world default_args "''TidyLogger''" ?w1 ?a2] i n
  have "trace (snd (TidyLogger_init ?a2 ?w1)) = trace ?w1"
    "handlers (loggers (snd (TidyLogger_init ?a2 ?w1)) ''TidyLogger'') = handlers (loggers ?w1 ''TidyLogger'')"
    by blast+
  then show ?thesis by (simp add: fresh_init_trace fresh_init_handlers)
qed
section \<open>The resolver with the date suffix\<close>

text \<open>
  Claim C2, as amended.  Let a name (a string, or a path object) be given whose normalised
  string is not blank and holds no null byte, which passes the two platform checks when the
  platform is \<open>nt\<close>, and whose normalised path has a non-empty final component.  Then the
  resolver with the date suffix returns a path whose stem is the original stem followed by
  \<open>_\<close> and the date token, whose extension is the original one when that is not empty and
  \<open>.log\<close> otherwise, and whose parent directory is the original parent.  The date token
  consists of the digits of the year, two digits that denote the month and two digits that
  denote the day of the clock's date; a year from 1000 to 9999 takes four digits, so that
  the token has eight.
  The condition on the final component is needed: the names \<open>.\<close> and \<open>/\<close> are not empty and
  pass every check of the resolver, yet \<open>with_name\<close> raises \<open>ValueError\<close> for them, as the
  counterexample below shows for \<open>.\<close>.
\<close>

theorem create_file_path_date_suffix:
  assumes fn: "fname = FStr x \<or> fname = FPath x"
    and blank: "py_strip (path_str os (Path os x)) \<noteq> []"
    and nul: "CHR 0x00 \<notin> set (path_str os (Path os x))"
    and chars: "os = ''nt'' \<Longrightarrow> \<not> list_ex (\<lambda>ch. ch \<in> set (path_str os (Path os x))) invalid_chars"
    and res: "os = ''nt'' \<Longrightarrow> \<not> list_ex (\<lambda>part. py_upper (path_stem (Path os part)) \<in> set reserved) (parts (Path os x))"
    and nm: "path_name (Path os x) \<noteq> []"
  shows "\<exists>q. create_file_path os now fname True = Inr q
           \<and> path_stem q = path_stem (Path os x) @ ''_'' @ strftime_Ymd now
           \<and> path_suffix q = (if path_suffix (Path os x) \<noteq> [] then path_suffix (Path os x)
                               else DEFAULT_FILE_EXTENSION)
           \<and> path_parent q = path_parent (Path os x)
           \<and> (month now \<le> 12 \<and> day now \<le> 31 \<longrightarrow>
          (\<exists>Y M D. strftime_Ymd now = Y @ M @ D
             \<and> nat_of_digits Y = year now
             \<and> length M = 2 \<and> nat_of_digits M = month now
             \<and> length D = 2 \<and> nat_of_digits D = day now
             \<and> (1000 \<le> year now \<and> year now \<le> 9999 \<longrightarrow> length Y = 4)))
           \<and> list_all (\<lambda>c. of_char c \<in> {48..57 :: nat}) (strftime_Ymd now)"
proof -
  let ?p = "Path os x"
  let ?sfx = "if path_suffix ?p \<noteq> [] then path_suffix ?p else DEFAULT_FILE_EXTENSION"
  let ?nn = "path_stem ?p @ ''_'' @ strftime_Ymd now @ ?sfx"
  let ?q = "?p\<lparr>parts := butlast (parts ?p) @ [?nn]\<rparr>"
  have r: "create_file_path os now fname True = Inr ?q"
    by (rule create_file_path_dated[OF fn blank nul chars res nm])
  have nm': "path_name (parse_parts os x) \<noteq> []" using nm by (simp add: Path_def)
  have nq: "path_name ?q = ?nn" and pq: "path_parent ?q = path_parent ?p"
    using name_after_with_name[OF nm', of ?nn] by (simp_all add: Path_def)
  have sf: "?sfx = suffix_of_name (path_name ?p) \<and> ?sfx \<noteq> [] \<or> ?sfx = ''.log''"
    by (simp add: path_suffix_def DEFAULT_FILE_EXTENSION_def)
  have st: "stem_of_name ?nn = path_stem ?p @ ''_'' @ strftime_Ymd now"
    and su: "suffix_of_name ?nn = ?sfx"
    using new_name_stem_suffix[OF sf, of now] unfolding path_stem_def by simp_all
  have a: "path_stem ?q = path_stem ?p @ ''_'' @ strftime_Ymd now"
    unfolding path_stem_def[of ?q] nq by (rule st)
  have b: "path_suffix ?q = ?sfx"
    unfolding path_suffix_def[of ?q] nq by (rule su)
  have dg: "list_all (\<lambda>c. of_char c \<in> {48..57 :: nat}) (strftime_Ymd now)"
    using strftime_digits by (auto simp: list_all_iff)
  have pin: "month now \<le> 12 \<and> day now \<le> 31 \<longrightarrow>
          (\<exists>Y M D. strftime_Ymd now = Y @ M @ D
             \<and> nat_of_digits Y = year now
             \<and> length M = 2 \<and> nat_of_digits M = month now
             \<and> length D = 2 \<and> nat_of_digits D = day now
             \<and> (1000 \<le> year now \<and> year now \<le> 9999 \<longrightarrow> length Y = 4))"
    using strftime_parts[of now] by blast
  show ?thesis
    by (intro exI[of _ ?q] conjI r a b pq pin dg)
qed

theorem create_file_path_date_suffix_witness:
  "create_file_path ''posix'' \<lparr>year = 2024, month = 1, day = 2\<rparr> (FStr ''parent_dir/test_log.txt'') True
     = Inr \<lparr>drv = [], root = [], parts = [''parent_dir'', ''test_log_20240102.txt'']\<rparr>
   \<and> (\<exists>q. create_file_path ''posix'' \<lparr>year = 2024, month = 1, day = 2\<rparr> (FStr ''parent_dir/test_log.txt'') True = Inr q
         \<and> path_stem q = ''test_log_20240102'' \<and> path_suffix q = ''.txt''
         \<and> path_parent q = Path ''posix'' ''parent_dir'')
   \<and> (\<exists>Y M D. ''20240102'' = Y @ M @ D \<and> length Y = 4 \<and> nat_of_digits Y = 2024
          \<and> length M = 2 \<and> nat_of_digits M = 1 \<and> length D = 2 \<and> nat_of_digits D = 2)"
proof -
  have h1: "py_strip (path_str ''posix'' (Path ''posix'' ''parent_dir/test_log.txt'')) \<noteq> []" by code_simp
  have h2: "CHR 0x00 \<notin> set (path_str ''posix'' (Path ''posix'' ''parent_dir/test_log.txt''))" by code_simp
  have h3: "path_name (Path ''posix'' ''parent_dir/test_log.txt'') \<noteq> []" by code_simp
  have e: "path_stem (Path ''posix'' ''parent_dir/test_log.txt'') = ''test_log''"
     "path_suffix (Path ''posix'' ''parent_dir/test_log.txt'') = ''.txt''"
     "path_parent (Path ''posix'' ''parent_dir/test_log.txt'') = Path ''posix'' ''parent_dir''"
    by code_simp+
  have c: "create_file_path ''posix'' \<lparr>year = 2024, month = 1, day = 2\<rparr> (FStr ''parent_dir/test_log.txt'') True
     = Inr \<lparr>drv = [], root = [], parts = [''parent_dir'', ''test_log_20240102.txt'']\<rparr>" by code_simp
  note t = create_file_path_date_suffix[of "FStr ''parent_dir/test_log.txt''" "''parent_dir/test_log.txt''" "''posix''"
        "\<lparr>year = 2024, month = 1, day = 2\<rparr>", OF _ h1 h2 _ _ h3, unfolded e strftime_example, simplified]
  from t obtain q where q: "create_file_path ''posix'' \<lparr>year = 2024, month = 1, day = 2\<rparr> (FStr ''parent_dir/test_log.txt'') True = Inr q"
    "path_stem q = ''test_log_20240102''" "path_suffix q = ''.txt''"
    "path_parent q = Path ''posix'' ''parent_dir''" by auto
  from t have d: "\<exists>Y M D. ''20240102'' = Y @ M @ D \<and> length Y = 4 \<and> nat_of_digits Y = 2024
          \<and> length M = 2 \<and> nat_of_digits M = 1 \<and> length D = 2 \<and> nat_of_digits D = 2"
    by (simp, blast)
  show ?thesis using c q d by blast
qed

theorem create_file_path_dot_counterexample:
  "''.'' \<noteq> [] \<and> py_strip (path_str ''posix'' (Path ''posix'' ''.'')) \<noteq> []
   \<and> CHR 0x00 \<notin> set (path_str ''posix'' (Path ''posix'' ''.''))
   \<and> create_file_path ''posix'' \<lparr>year = 2024, month = 1, day = 2\<rparr> (FStr ''.'') True
       = Inl (Exc ValueError ''has an empty name'')"
  by code_simp
section \<open>Closing the facade\<close>

text \<open>
  Claim C3.  \<open>close\<close> never raises, whatever the flushes and closes of the handlers do: it
  calls \<open>flush\<close> and then \<open>close\<close> on every handler attached to the logger, in order, and
  leaves the logger without handlers.  A second \<open>close\<close> changes nothing.  After \<open>close\<close>
  a construction under the same name attaches the file handler and the console handler
  again, provided its name and level arguments are valid and no call to the file system
  fails.
\<close>

theorem close_releases_sinks:
  "fst (close k w) = Inr ()
   \<and> handlers (loggers (snd (close k w)) k) = []
   \<and> trace (snd (close k w)) =
        trace w @ concat (map (\<lambda>h. [Flush h, Close h]) (handlers (loggers w k)))
   \<and> close k (snd (close k w)) = (Inr (), snd (close k w))
   \<and> (logger_key a = k
        \<and> create_file_path (platform w) (clock w) (file_name a)
              (add_date_suffix_to_file_name a) = Inr fp
        \<and> checkLevel (file_level a) = Inr fl \<and> checkLevel (console_level a) = Inr cl
        \<and> py_min (console_level a) (file_level a) = Inr m
        \<and> (\<forall>t e. \<not> failing w t e)
       \<longrightarrow> fst (TidyLogger_init a (snd (close k w))) = Inr k
           \<and> handlers (loggers (snd (TidyLogger_init a (snd (close k w)))) k) =
                [\<lparr>sink = fst (new_file_handler a fp),
                  hformatter = Some IndentedMessageFormatter, hlevel = fl\<rparr>,
                 \<lparr>sink = StreamSink,
                  hformatter = Some ColoredIndentedMessageFormatter, hlevel = cl\<rparr>])"
proof (intro conjI impI)
  show "fst (close k w) = Inr ()" by (simp add: close_def)
  show "handlers (loggers (snd (close k w)) k) = []" by (simp add: close_handlers)
  show "trace (snd (close k w)) =
        trace w @ concat (map (\<lambda>h. [Flush h, Close h]) (handlers (loggers w k)))"
    by (rule close_trace)
  show "close k (snd (close k w)) = (Inr (), snd (close k w))" by (rule close_twice)
next
  assume h: "logger_key a = k
        \<and> create_file_path (platform w) (clock w) (file_name a)
              (add_date_suffix_to_file_name a) = Inr fp
        \<and> checkLevel (file_level a) = Inr fl \<and> checkLevel (console_level a) = Inr cl
        \<and> py_min (console_level a) (file_level a) = Inr m
        \<and> (\<forall>t e. \<not> failing w t e)"
  then show "fst (TidyLogger_init a (snd (close k w))) = Inr k"
    using init_after_close(1)[of a k w fp fl cl m] by blast
  from h show "handlers (loggers (snd (TidyLogger_init a (snd (close k w)))) k) =
                [\<lparr>sink = fst (new_file_handler a fp),
                  hformatter = Some IndentedMessageFormatter, hlevel = fl\<rparr>,
                 \<lparr>sink = StreamSink,
                  hformatter = Some ColoredIndentedMessageFormatter, hlevel = cl\<rparr>]"
    using init_after_close(2)[of a k w fp fl cl m] by blast
qed

theorem close_releases_sinks_witness:
  "fst (close ''TidyLogger'' (snd (TidyLogger_init default_args failing_world))) = Inr ()
   \<and> handlers (loggers (snd (TidyLogger_init default_args failing_world)) ''TidyLogger'') \<noteq> []
   \<and> handlers (loggers (snd (close ''TidyLogger'' (snd (TidyLogger_init default_args failing_world))))
        ''TidyLogger'') = []
   \<and> length (trace (snd (close ''TidyLogger'' (snd (TidyLogger_init default_args failing_world))))) = 6
   \<and> length (handlers (loggers (snd (TidyLogger_init default_args
         (snd (close ''TidyLogger'' (snd (TidyLogger_init default_args fresh_world))))))
        ''TidyLogger'')) = 2"
proof -
  let ?w1 = "snd (TidyLogger_init default_args failing_world)"
  let ?v1 = "snd (TidyLogger_init default_args fresh_world)"
  have n: "handlers (loggers ?w1 ''TidyLogger'') \<noteq> []" by code_simp
  have t: "length (trace ?w1) = 2" "length (handlers (loggers ?w1 ''TidyLogger'')) = 2" by code_simp+
  have k: "logger_key default_args = ''TidyLogger''" by code_simp
  have fp: "create_file_path (platform ?v1) (clock ?v1) (file_name default_args)
              (add_date_suffix_to_file_name default_args)
            = Inr \<lparr>drv = [], root = [], parts = [''log_20240102.log'']\<rparr>" by code_simp
  have lv: "checkLevel (file_level default_args) = Inr 10"
    "checkLevel (console_level default_args) = Inr 20"
    "py_min (console_level default_args) (file_level default_args) = Inr (LInt 10)"
    by code_simp+
  have nf: "\<forall>t e. \<not> failing ?v1 t e"
    by (simp add: init_guarded_frame fresh_world_def TidyLogger_init_def Let_def default_args_def
        attach_sinks_frame setLevel_fields split: sum.splits)
  note c1 = close_releases_sinks[of "''TidyLogger''" ?w1 default_args]
  note c2 = close_releases_sinks[of "''TidyLogger''" ?v1 default_args
              "\<lparr>drv = [], root = [], parts = [''log_20240102.log'']\<rparr>" 10 20 "LInt 10"]
  have a: "fst (close ''TidyLogger'' ?w1) = Inr ()"
     "handlers (loggers (snd (close ''TidyLogger'' ?w1)) ''TidyLogger'') = []"
     "trace (snd (close ''TidyLogger'' ?w1)) =
        trace ?w1 @ concat (map (\<lambda>h. [Flush h, Close h]) (handlers (loggers ?w1 ''TidyLogger'')))"
    using c1 by blast+
  have "length (trace (snd (close ''TidyLogger'' ?w1))) = 6"
    unfolding a(3) using t by (simp add: length_concat o_def sum_list_triv)
  moreover have "length (handlers (loggers (snd (TidyLogger_init default_args
         (snd (close ''TidyLogger'' ?v1)))) ''TidyLogger'')) = 2"
    using c2 k fp lv nf by simp
  ultimately show ?thesis using a n by simp
qed

section \<open>Blank names and null bytes\<close>

text \<open>
  Claim C4.  For a name (string or path object) whose normalised string is blank, that is
  empty or made of whitespace only, or holds a null byte, the resolver raises
  \<open>ValueError\<close> (the spec's InvalidNameError), and a construction with such a name creates no
  directory, opens no file and attaches no handler to any logger; when the logger has no
  handler yet and the level arguments are valid, that \<open>ValueError\<close> is what construction
  raises.  The empty string itself normalises to \<open>.\<close>, which is not blank; it is rejected
  with \<open>ValueError\<close> all the same, by \<open>with_name\<close> or \<open>with_suffix\<close>.
\<close>

theorem invalid_name_no_partial_construction:
  assumes fn: "file_name a = FStr x \<or> file_name a = FPath x"
    and bad: "py_strip (path_str (platform w) (Path (platform w) x)) = []
              \<or> CHR 0x00 \<in> set (path_str (platform w) (Path (platform w) x))"
  shows "(\<exists>msg. create_file_path (platform w) now (file_name a) add = Inl (Exc ValueError msg))
    \<and> trace (snd (TidyLogger_init a w)) = trace w
    \<and> (\<forall>k. handlers (loggers (snd (TidyLogger_init a w)) k) = handlers (loggers w k))
    \<and> (handlers (loggers w (logger_key a)) = []
        \<and> py_min (console_level a) (file_level a) = Inr m \<and> checkLevel m = Inr l
        \<longrightarrow> (\<exists>msg. fst (TidyLogger_init a w) = Inl (Exc ValueError msg)))
    \<and> create_file_path os now (FStr []) add = Inl (Exc ValueError ''has an empty name'')"
proof -
  have r: "\<exists>msg. create_file_path (platform w) d (file_name a) b = Inl (Exc ValueError msg)" for d b
    using create_file_path_rejects[OF fn, of "platform w" d b] bad by blast
  then obtain msg where
    e: "create_file_path (platform w) (clock w) (file_name a) (add_date_suffix_to_file_name a)
          = Inl (Exc ValueError msg)" by blast
  have "handlers (loggers w (logger_key a)) = []
        \<and> py_min (console_level a) (file_level a) = Inr m \<and> checkLevel m = Inr l
        \<longrightarrow> (\<exists>msg. fst (TidyLogger_init a w) = Inl (Exc ValueError msg))"
    using init_resolver_error(3)[OF e] by blast
  moreover have "\<forall>k. handlers (loggers (snd (TidyLogger_init a w)) k) = handlers (loggers w k)"
    using init_resolver_error(2)[OF e] by blast
  ultimately show ?thesis
    using r init_resolver_error(1)[OF e] create_file_path_empty_string by blast
qed

theorem invalid_name_no_partial_construction_witness:
  "fst (TidyLogger_init (default_args\<lparr>file_name := FStr '' ''\<rparr>) fresh_world) =
      Inl (Exc ValueError ''`file_name` cannot be empty.'')
   \<and> trace (snd (TidyLogger_init (default_args\<lparr>file_name := FStr '' ''\<rparr>) fresh_world)) = []
   \<and> handlers (loggers (snd (TidyLogger_init (default_args\<lparr>file_name := FStr '' ''\<rparr>) fresh_world))
        ''TidyLogger'') = []"
proof -
  let ?a = "default_args\<lparr>file_name := FStr '' ''\<rparr>"
  have fn: "file_name ?a = FStr '' '' \<or> file_name ?a = FPath '' ''" by simp
  have bad: "py_strip (path_str (platform fresh_world) (Path (platform fresh_world) '' '')) = []
              \<or> CHR 0x00 \<in> set (path_str (platform fresh_world) (Path (platform fresh_world) '' ''))"
    by code_simp
  have f: "fst (TidyLogger_init ?a fresh_world) = Inl (Exc ValueError ''`file_name` cannot be empty.'')"
    by code_simp
  have t: "trace fresh_world = []" "handlers (loggers fresh_world ''TidyLogger'') = []"
    by (simp_all add: fresh_world_def)
  from invalid_name_no_partial_construction[OF fn bad, of "clock fresh_world" True]
  have "trace (snd (TidyLogger_init ?a fresh_world)) = trace fresh_world"
    "handlers (loggers (snd (TidyLogger_init ?a fresh_world)) ''TidyLogger'')
       = handlers (loggers fresh_world ''TidyLogger'')"
    by blast+
  then show ?thesis using f t by simp
qed


section \<open>The platform checks\<close>

text \<open>
  Claim C5, as amended.  On the platform \<open>nt\<close> the resolver raises \<open>ValueError\<close> for every name
  of which some part of the normalised path has a stem that is, in upper case, one of
  \<open>CON\<close>, \<open>PRN\<close>, \<open>AUX\<close>, \<open>NUL\<close>, \<open>COM1\<close> to \<open>COM9\<close>, \<open>LPT1\<close> to \<open>LPT9\<close>, and for every name
  whose normalised string holds one of the characters \<open>< > : " / \ | ? *\<close>.  On any other
  platform neither check is made: a name is accepted exactly when its normalised string is
  not blank, holds no null byte and the path has a non-empty final component.  So such
  names are not all accepted elsewhere: \<open>/\<close> holds a character of the set and is rejected on
  \<open>posix\<close> as well, for want of a final component.
\<close>

theorem platform_checks:
  assumes fn: "fname = FStr x \<or> fname = FPath x"
  shows "(list_ex (\<lambda>part. py_upper (path_stem (Path ''nt'' part)) \<in> set reserved)
            (parts (Path ''nt'' x))
          \<longrightarrow> (\<exists>m. create_file_path ''nt'' now fname add = Inl (Exc ValueError m)))
       \<and> (list_ex (\<lambda>ch. ch \<in> set (path_str ''nt'' (Path ''nt'' x))) invalid_chars
          \<longrightarrow> (\<exists>m. create_file_path ''nt'' now fname add = Inl (Exc ValueError m)))
       \<and> (os \<noteq> ''nt'' \<longrightarrow>
            ((\<exists>q. create_file_path os now fname add = Inr q) \<longleftrightarrow>
             (py_strip (path_str os (Path os x)) \<noteq> []
              \<and> CHR 0x00 \<notin> set (path_str os (Path os x))
              \<and> path_name (Path os x) \<noteq> [])))
       \<and> reserved = [''CON'', ''PRN'', ''AUX'', ''NUL'',
     ''COM1'', ''COM2'', ''COM3'', ''COM4'', ''COM5'', ''COM6'', ''COM7'', ''COM8'', ''COM9'',
     ''LPT1'', ''LPT2'', ''LPT3'', ''LPT4'', ''LPT5'', ''LPT6'', ''LPT7'', ''LPT8'', ''LPT9'']"
proof (intro conjI impI)
  assume "list_ex (\<lambda>part. py_upper (path_stem (Path ''nt'' part)) \<in> set reserved) (parts (Path ''nt'' x))"
  then show "\<exists>m. create_file_path ''nt'' now fname add = Inl (Exc ValueError m)"
    using create_file_path_rejects[OF fn, of "''nt''" now add] by blast
next
  assume "list_ex (\<lambda>ch. ch \<in> set (path_str ''nt'' (Path ''nt'' x))) invalid_chars"
  then show "\<exists>m. create_file_path ''nt'' now fname add = Inl (Exc ValueError m)"
    using create_file_path_rejects[OF fn, of "''nt''" now add] by blast
next
  assume "os \<noteq> ''nt''"
  then show "(\<exists>q. create_file_path os now fname add = Inr q) \<longleftrightarrow>
             (py_strip (path_str os (Path os x)) \<noteq> []
              \<and> CHR 0x00 \<notin> set (path_str os (Path os x))
              \<and> path_name (Path os x) \<noteq> [])"
    by (rule create_file_path_other_platforms[OF _ fn])
next
  show "reserved = [''CON'', ''PRN'', ''AUX'', ''NUL'',
     ''COM1'', ''COM2'', ''COM3'', ''COM4'', ''COM5'', ''COM6'', ''COM7'', ''COM8'', ''COM9'',
     ''LPT1'', ''LPT2'', ''LPT3'', ''LPT4'', ''LPT5'', ''LPT6'', ''LPT7'', ''LPT8'', ''LPT9'']"
    by (rule reserved_names)
qed

theorem platform_checks_witness:
  "(\<exists>m. create_file_path ''nt'' \<lparr>year = 2024, month = 1, day = 2\<rparr> (FStr ''Aux.log'') True
          = Inl (Exc ValueError m))
   \<and> (\<exists>m. create_file_path ''nt'' \<lparr>year = 2024, month = 1, day = 2\<rparr> (FStr ''inva|id:log*name?.log'') True
          = Inl (Exc ValueError m))
   \<and> (\<exists>q. create_file_path ''posix'' \<lparr>year = 2024, month = 1, day = 2\<rparr> (FStr ''inva|id:log*name?.log'') True
          = Inr q)"
proof -
  have a: "list_ex (\<lambda>part. py_upper (path_stem (Path ''nt'' part)) \<in> set reserved)
            (parts (Path ''nt'' ''Aux.log''))" by code_simp
  have b: "list_ex (\<lambda>ch. ch \<in> set (path_str ''nt'' (Path ''nt'' ''inva|id:log*name?.log''))) invalid_chars"
    by code_simp
  have c: "py_strip (path_str ''posix'' (Path ''posix'' ''inva|id:log*name?.log'')) \<noteq> []
              \<and> CHR 0x00 \<notin> set (path_str ''posix'' (Path ''posix'' ''inva|id:log*name?.log''))
              \<and> path_name (Path ''posix'' ''inva|id:log*name?.log'') \<noteq> []" by code_simp
  have o: "''posix'' \<noteq> ''nt''" by simp
  show ?thesis
    using platform_checks[of "FStr ''Aux.log''" "''Aux.log''" "\<lparr>year = 2024, month = 1, day = 2\<rparr>" True "''posix''"]
      platform_checks[of "FStr ''inva|id:log*name?.log''" "''inva|id:log*name?.log''" "\<lparr>year = 2024, month = 1, day = 2\<rparr>" True "''posix''"]
      a b c o by blast
qed

theorem other_platform_root_counterexample:
  "list_ex (\<lambda>ch. ch \<in> set (path_str ''posix'' (Path ''posix'' ''/''))) invalid_chars
   \<and> create_file_path ''posix'' \<lparr>year = 2024, month = 1, day = 2\<rparr> (FStr ''/'') True
       = Inl (Exc ValueError ''has an empty name'')
   \<and> create_file_path ''posix'' \<lparr>year = 2024, month = 1, day = 2\<rparr> (FStr ''/'') False
       = Inl (Exc ValueError ''has an empty name'')"
  by code_simp

lemma nt_trailing_separator_accepted:
  "create_file_path ''nt'' \<lparr>year = 2024, month = 1, day = 2\<rparr> (FStr ''a/'') True
     = Inr \<lparr>drv = [], root = [], parts = [''a_20240102.log'']\<rparr>"
  by code_simp

section \<open>The threshold of the logger and the thresholds of the sinks\<close>




section \<open>The resolver without a name\<close>

text \<open>
  Claim C7.  When the name is absent, the resolver with the date suffix returns the relative
  path \<open>log_YYYYMMDD.log\<close>: the stem is \<open>log_\<close> followed by the date token, the extension is
  \<open>.log\<close>, the parent is the current directory; without the date suffix it returns
  \<open>log.log\<close>.  The date token consists of the digits of the year, two digits that denote
  the month and two digits that denote the day of the clock's date, and a year from 1000 to
  9999 takes four digits, so that the token has eight.  This holds on every platform.
\<close>

theorem create_file_path_None:
  "create_file_path os_name now FNone True =
     Inr \<lparr>drv = [], root = [], parts = [''log_'' @ strftime_Ymd now @ ''.log'']\<rparr>
   \<and> path_str os_name \<lparr>drv = [], root = [], parts = [''log_'' @ strftime_Ymd now @ ''.log'']\<rparr>
       = ''log_'' @ strftime_Ymd now @ ''.log''
   \<and> path_stem \<lparr>drv = [], root = [], parts = [''log_'' @ strftime_Ymd now @ ''.log'']\<rparr>
       = ''log_'' @ strftime_Ymd now
   \<and> path_suffix \<lparr>drv = [], root = [], parts = [''log_'' @ strftime_Ymd now @ ''.log'']\<rparr> = ''.log''
   \<and> path_parent \<lparr>drv = [], root = [], parts = [''log_'' @ strftime_Ymd now @ ''.log'']\<rparr>
       = Path os_name ''.''
   \<and> (month now \<le> 12 \<and> day now \<le> 31 \<longrightarrow>
          (\<exists>Y M D. strftime_Ymd now = Y @ M @ D
             \<and> nat_of_digits Y = year now
             \<and> length M = 2 \<and> nat_of_digits M = month now
             \<and> length D = 2 \<and> nat_of_digits D = day now
             \<and> (1000 \<le> year now \<and> year now \<le> 9999 \<longrightarrow> length Y = 4)))
   \<and> list_all (\<lambda>c. of_char c \<in> {48..57 :: nat}) (strftime_Ymd now)
   \<and> create_file_path os_name now FNone False = Inr \<lparr>drv = [], root = [], parts = [''log.log'']\<rparr>
   \<and> path_str os_name \<lparr>drv = [], root = [], parts = [''log.log'']\<rparr> = ''log.log''
   \<and> path_stem \<lparr>drv = [], root = [], parts = [''log.log'']\<rparr> = ''log''
   \<and> path_suffix \<lparr>drv = [], root = [], parts = [''log.log'']\<rparr> = ''.log''
   \<and> path_parent \<lparr>drv = [], root = [], parts = [''log.log'']\<rparr> = Path os_name ''.''"
proof -
  let ?nn = "''log_'' @ strftime_Ymd now @ ''.log''"
  have e1: "DEFAULT_FILE_NAME @ ''_'' @ strftime_Ymd now @ DEFAULT_FILE_EXTENSION = ?nn"
    by (simp add: DEFAULT_FILE_NAME_def DEFAULT_FILE_EXTENSION_def)
  have e2: "DEFAULT_FILE_NAME @ DEFAULT_FILE_EXTENSION = ''log.log''"
    by (simp add: DEFAULT_FILE_NAME_def DEFAULT_FILE_EXTENSION_def)
  have p1: "Path os_name ?nn = \<lparr>drv = [], root = [], parts = [?nn]\<rparr>"
    using parse_plain[OF plain_default_dated[of os_name now]] unfolding e1 Path_def .
  have p2: "Path os_name ''log.log'' = \<lparr>drv = [], root = [], parts = [''log.log'']\<rparr>"
    using parse_plain[OF plain_default[of os_name]] unfolding e2 Path_def .
  have c1: "create_file_path os_name now FNone True = Inr \<lparr>drv = [], root = [], parts = [?nn]\<rparr>"
    unfolding create_file_path_def Let_def using p1 e1 by simp
  have c2: "create_file_path os_name now FNone False = Inr \<lparr>drv = [], root = [], parts = [''log.log'']\<rparr>"
    unfolding create_file_path_def Let_def using p2 e2 by simp
  have dot: "Path os_name ''.'' = \<lparr>drv = [], root = [], parts = []\<rparr>"
    by (rule Path_dot)
  have ne: "''log_'' @ strftime_Ymd now \<noteq> []" by simp
  have s1: "stem_of_name ?nn = ''log_'' @ strftime_Ymd now" "suffix_of_name ?nn = ''.log''"
    using stem_suffix_append[OF ne, of "''log''"] by simp_all
  have s2: "stem_of_name ''log.log'' = ''log''" "suffix_of_name ''log.log'' = ''.log''"
    using stem_suffix_append[of "''log''" "''log''"] by simp_all
  have dg: "list_all (\<lambda>c. of_char c \<in> {48..57 :: nat}) (strftime_Ymd now)"
    using strftime_digits by (auto simp: list_all_iff)
  have str1: "path_str os_name \<lparr>drv = [], root = [], parts = [?nn]\<rparr> = ?nn"
    by (rule single_part_path(3)) simp
  have n1: "path_name \<lparr>drv = [], root = [], parts = [?nn]\<rparr> = ?nn"
    by (rule single_part_path(1))
  have n2: "path_name \<lparr>drv = [], root = [], parts = [''log.log'']\<rparr> = ''log.log''"
    by (rule single_part_path(1))
  have a1: "path_stem \<lparr>drv = [], root = [], parts = [?nn]\<rparr> = ''log_'' @ strftime_Ymd now"
    unfolding path_stem_def n1 by (rule s1(1))
  have a2: "path_suffix \<lparr>drv = [], root = [], parts = [?nn]\<rparr> = ''.log''"
    unfolding path_suffix_def n1 by (rule s1(2))
  have a3: "path_parent \<lparr>drv = [], root = [], parts = [?nn]\<rparr> = Path os_name ''.''"
    unfolding dot by (rule single_part_path(2))
  have b0: "path_str os_name \<lparr>drv = [], root = [], parts = [''log.log'']\<rparr> = ''log.log''"
    by (rule single_part_path(3)) simp
  have b1: "path_stem \<lparr>drv = [], root = [], parts = [''log.log'']\<rparr> = ''log''"
    unfolding path_stem_def n2 by (rule s2(1))
  have b2: "path_suffix \<lparr>drv = [], root = [], parts = [''log.log'']\<rparr> = ''.log''"
    unfolding path_suffix_def n2 by (rule s2(2))
  have b3: "path_parent \<lparr>drv = [], root = [], parts = [''log.log'']\<rparr> = Path os_name ''.''"
    unfolding dot by (rule single_part_path(2))
  have pin: "month now \<le> 12 \<and> day now \<le> 31 \<longrightarrow>
          (\<exists>Y M D. strftime_Ymd now = Y @ M @ D
             \<and> nat_of_digits Y = year now
             \<and> length M = 2 \<and> nat_of_digits M = month now
             \<and> length D = 2 \<and> nat_of_digits D = day now
             \<and> (1000 \<le> year now \<and> year now \<le> 9999 \<longrightarrow> length Y = 4))"
    using strftime_parts[of now] by blast
  show ?thesis
    by (intro conjI c1 str1 a1 a2 a3 pin dg c2 b0 b1 b2 b3)
qed

theorem create_file_path_None_witness:
  "create_file_path ''posix'' \<lparr>year = 2024, month = 1, day = 2\<rparr> FNone True
     = Inr \<lparr>drv = [], root = [], parts = [''log_20240102.log'']\<rparr>
   \<and> path_stem \<lparr>drv = [], root = [], parts = [''log_20240102.log'']\<rparr> = ''log_20240102''
   \<and> path_suffix \<lparr>drv = [], root = [], parts = [''log_20240102.log'']\<rparr> = ''.log''
   \<and> (\<exists>Y M D. ''20240102'' = Y @ M @ D \<and> length Y = 4 \<and> nat_of_digits Y = 2024
          \<and> length M = 2 \<and> nat_of_digits M = 1 \<and> length D = 2 \<and> nat_of_digits D = 2)
   \<and> create_file_path ''posix'' \<lparr>year = 2024, month = 1, day = 2\<rparr> FNone False
     = Inr \<lparr>drv = [], root = [], parts = [''log.log'']\<rparr>"
  using create_file_path_None [of "''posix''" "\<lparr>year = 2024, month = 1, day = 2\<rparr>"]
  unfolding strftime_example by (simp, blast)
section \<open>A name of the wrong type\<close>

text \<open>
  Claim C8, as amended.  For a name that is neither \<open>None\<close>, a string nor a path object the
  resolver raises \<open>ValueError\<close> with the message
  \<open>'file_name' should be of type 'str', 'Path', or 'None'.\<close>, on every platform and with
  either setting of the date suffix, and no other input leads to this exception.  The
  exception class is the one raised for malformed names; the two are told apart by their
  messages only.
\<close>

theorem create_file_path_wrong_type:
  "create_file_path os now FOther add
     = Inl (Exc ValueError '''file_name' should be of type 'str', 'Path', or 'None'.'')
   \<and> (create_file_path os now fname add
         = Inl (Exc ValueError '''file_name' should be of type 'str', 'Path', or 'None'.'')
        \<longleftrightarrow> fname = FOther)"
proof -
  let ?e = "Inl (Exc ValueError '''file_name' should be of type 'str', 'Path', or 'None'.'') :: exc + path"
  have o: "create_file_path os now FOther add = ?e"
    unfolding create_file_path_def Let_def by simp
  have n: "create_file_path os now FNone add \<noteq> ?e"
    unfolding create_file_path_def Let_def by simp
  have s: "create_file_path os now f add \<noteq> ?e" if "f = FStr x \<or> f = FPath x" for f x
    unfolding create_file_path_named[OF that, of os now add]
    using with_name_message with_suffix_message by simp
  have "fname = FOther" if "create_file_path os now fname add = ?e"
    using that n s by (cases fname) auto
  with o show ?thesis by blast
qed

theorem create_file_path_wrong_type_witness:
  "create_file_path ''posix'' \<lparr>year = 2024, month = 1, day = 2\<rparr> FOther True
     = Inl (Exc ValueError '''file_name' should be of type 'str', 'Path', or 'None'.'')
   \<and> create_file_path ''posix'' \<lparr>year = 2024, month = 1, day = 2\<rparr> (FStr ''a'') True
     \<noteq> Inl (Exc ValueError '''file_name' should be of type 'str', 'Path', or 'None'.'')"
  using create_file_path_wrong_type[of "''posix''" "\<lparr>year = 2024, month = 1, day = 2\<rparr>" True "FStr ''a''"]
  by simp

theorem wrong_type_same_class_counterexample:
  "create_file_path ''posix'' \<lparr>year = 2024, month = 1, day = 2\<rparr> FOther True
     = Inl (Exc ValueError '''file_name' should be of type 'str', 'Path', or 'None'.'')
   \<and> create_file_path ''posix'' \<lparr>year = 2024, month = 1, day = 2\<rparr> (FStr '' '') True
     = Inl (Exc ValueError ''`file_name` cannot be empty.'')"
  by code_simp
section \<open>\<open>close\<close> and handlers of other origin\<close>

text \<open>
  Claim C9.  \<open>close\<close> flushes, closes and detaches every handler that is attached to the
  underlying logger at the time of the call, whoever attached it: a handler added from
  outside, or by another facade of the same name (which shares the logger), is removed as
  well, and the logger is left without handlers.  The handlers of loggers under other
  names are not touched.
\<close>

theorem close_removes_every_handler:
  "(h \<in> set (handlers (loggers w k)) \<longrightarrow>
       Flush h \<in> set (trace (snd (close k w))) \<and> Close h \<in> set (trace (snd (close k w)))
       \<and> h \<notin> set (handlers (loggers (snd (close k w)) k)))
   \<and> handlers (loggers (snd (close k w)) k) = []
   \<and> (k' \<noteq> k \<longrightarrow> handlers (loggers (snd (close k w)) k') = handlers (loggers w k'))
   \<and> handlers (loggers (snd (close k (addHandler k h w))) k) = []
   \<and> (name a2 = name a \<longrightarrow> logger_key a2 = logger_key a)"
proof (intro conjI impI)
  assume "h \<in> set (handlers (loggers w k))"
  then show "Flush h \<in> set (trace (snd (close k w)))" "Close h \<in> set (trace (snd (close k w)))"
    unfolding close_trace by auto
  show "h \<notin> set (handlers (loggers (snd (close k w)) k))" by (simp add: close_handlers)
next
  show "handlers (loggers (snd (close k w)) k) = []" by (simp add: close_handlers)
  show "handlers (loggers (snd (close k (addHandler k h w))) k) = []" by (simp add: close_handlers)
next
  assume "k' \<noteq> k"
  then show "handlers (loggers (snd (close k w)) k') = handlers (loggers w k')"
    by (simp add: close_handlers)
next
  assume "name a2 = name a"
  then show "logger_key a2 = logger_key a" by (rule name_key)
qed

theorem close_removes_every_handler_witness:
  "\<lparr>sink = ForeignSink 7, hformatter = None, hlevel = 0\<rparr>
      \<in> set (handlers (loggers (addHandler ''TidyLogger''
             \<lparr>sink = ForeignSink 7, hformatter = None, hlevel = 0\<rparr>
             (snd (TidyLogger_init default_args fresh_world))) ''TidyLogger''))
   \<and> Flush \<lparr>sink = ForeignSink 7, hformatter = None, hlevel = 0\<rparr>
      \<in> set (trace (snd (close ''TidyLogger'' (addHandler ''TidyLogger''
             \<lparr>sink = ForeignSink 7, hformatter = None, hlevel = 0\<rparr>
             (snd (TidyLogger_init default_args fresh_world))))))
   \<and> Close \<lparr>sink = ForeignSink 7, hformatter = None, hlevel = 0\<rparr>
      \<in> set (trace (snd (close ''TidyLogger'' (addHandler ''TidyLogger''
             \<lparr>sink = ForeignSink 7, hformatter = None, hlevel = 0\<rparr>
             (snd (TidyLogger_init default_args fresh_world))))))
   \<and> handlers (loggers (snd (close ''TidyLogger'' (addHandler ''TidyLogger''
             \<lparr>sink = ForeignSink 7, hformatter = None, hlevel = 0\<rparr>
             (snd (TidyLogger_init default_args fresh_world))))) ''TidyLogger'') = []"
proof -
  let ?h = "\<lparr>sink = ForeignSink 7, hformatter = None, hlevel = 0\<rparr>"
  let ?w = "addHandler ''TidyLogger'' ?h (snd (TidyLogger_init default_args fresh_world))"
  have m: "?h \<in> set (handlers (loggers ?w ''TidyLogger''))"
    by (simp add: addHandler_fields)
  show ?thesis
    using close_removes_every_handler[of ?h ?w "''TidyLogger''"] m by blast
qed


section \<open>The level is set before the guard\<close>

text \<open>
  Claim C10.  Construction sets the level of the shared logger, to the result of \<open>min\<close> on
  the two level arguments, before it looks at the handlers: whenever the level arguments
  are accepted, the logger has this level afterwards, also when the logger already had
  handlers, in which case nothing else in the world changes.  For integer levels the new
  level is the smaller of the two.
\<close>

theorem init_sets_level_before_guard:
  "(py_min (console_level a) (file_level a) = Inr m \<and> checkLevel m = Inr l \<longrightarrow>
      level (loggers (snd (TidyLogger_init a w)) (logger_key a)) = l
      \<and> (handlers (loggers w (logger_key a)) \<noteq> [] \<longrightarrow>
           TidyLogger_init a w =
             (Inr (logger_key a),
              w\<lparr>loggers := (loggers w)(logger_key a := (loggers w (logger_key a))\<lparr>level := l\<rparr>)\<rparr>)))
   \<and> (console_level a = LInt c \<and> file_level a = LInt f \<longrightarrow>
      level (loggers (snd (TidyLogger_init a w)) (logger_key a)) = min c f)"
proof (intro conjI impI)
  assume h: "py_min (console_level a) (file_level a) = Inr m \<and> checkLevel m = Inr l"
  then show "level (loggers (snd (TidyLogger_init a w)) (logger_key a)) = l"
    using init_level_set by blast
  assume "handlers (loggers w (logger_key a)) \<noteq> []"
  then show "TidyLogger_init a w =
             (Inr (logger_key a),
              w\<lparr>loggers := (loggers w)(logger_key a := (loggers w (logger_key a))\<lparr>level := l\<rparr>)\<rparr>)"
    using h init_levels_ok[of a m l w] by (simp add: setLevel_def)
next
  assume "console_level a = LInt c \<and> file_level a = LInt f"
  then have "py_min (console_level a) (file_level a) = Inr (LInt (min c f))"
    "checkLevel (LInt (min c f)) = Inr (min c f)"
    by (simp_all add: py_min_int)
  then show "level (loggers (snd (TidyLogger_init a w)) (logger_key a)) = min c f"
    by (rule init_level_set)
qed

theorem init_sets_level_before_guard_witness:
  "level (loggers (snd (TidyLogger_init default_args fresh_world)) ''TidyLogger'') = 10
   \<and> level (loggers (snd (TidyLogger_init
        (default_args\<lparr>console_level := LInt 40, file_level := LInt 30\<rparr>)
        (snd (TidyLogger_init default_args fresh_world)))) ''TidyLogger'') = 30
   \<and> map hlevel (handlers (loggers (snd (TidyLogger_init
        (default_args\<lparr>console_level := LInt 40, file_level := LInt 30\<rparr>)
        (snd (TidyLogger_init default_args fresh_world)))) ''TidyLogger'')) = [10, 20]"
proof -
  let ?a2 = "default_args\<lparr>console_level := LInt 40, file_level := LInt 30\<rparr>"
  let ?w1 = "snd (TidyLogger_init default_args fresh_world)"
  have k: "logger_key default_args = ''TidyLogger''" "logger_key ?a2 = ''TidyLogger''" by code_simp+
  have l1: "console_level default_args = LInt 20 \<and> file_level default_args = LInt 10"
    by (simp add: default_args_def)
  have l2: "console_level ?a2 = LInt 40 \<and> file_level ?a2 = LInt 30" by simp
  have h: "map hlevel (handlers (loggers (snd (TidyLogger_init ?a2 ?w1)) ''TidyLogger'')) = [10, 20]"
    by code_simp
  from init_sets_level_before_guard[of default_args _ _ fresh_world 20 10] l1 k
  have a: "level (loggers ?w1 ''TidyLogger'') = 10" by simp
  from init_sets_level_before_guard[of ?a2 _ _ ?w1 40 30] l2 k
  have b: "level (loggers (snd (TidyLogger_init ?a2 ?w1)) ''TidyLogger'') = 30" by simp
  show ?thesis using a b h by simp
qed


end
